theory Spec2Isabelle
  imports Main "HOL-Library.Char_ord" "HOL-Library.List_Lexorder" "HOL-Library.AList"
begin

section \<open>The Stripe Terminal requests of package p400\<close>

text \<open>
  The file \<^verbatim>\<open>pkg/terminal/p400/stripe_requests.go\<close> holds six operations, each of which
  builds one request to the payments platform, hands it to an HTTP transport and turns the
  response into a Go result pair \<open>(value, error)\<close>. The operations are modelled as state
  transformers: the state holds what an operation can touch, and everything the operation
  gets from outside (package constants declared in other files, the URL parser, the
  transport, the JSON decoder) is a field of an environment.
\<close>

subsection \<open>Errors\<close>

text \<open>
  Modelled from the spec: the sentinel \<^verbatim>\<open>ErrCapturePaymentIntentFailed\<close> is declared in
  another file of the package; the spec describes it as a single sentinel error condition
  "capture failed" with no underlying detail. Every other error value comes from a library
  or from the transport and is carried as its message.
\<close>

datatype error = ErrCapturePaymentIntentFailed | LibraryError string

subsection \<open>The data model\<close>

text \<open>
  Modelled from the spec: the type \<^verbatim>\<open>TerminalSessionContext\<close> and the device identity it
  nests are declared in another file of the package. The fields are those of the spec's
  data model, under the names by which the operations read them.
\<close>

record POSInfo_t =
  Description :: string

record HardwareModel_t =
  POSInfo :: POSInfo_t

record AppModel_t =
  AppID :: string
  AppVersion :: string

record DeviceInfo_t =
  DeviceClass :: string
  DeviceUUID :: string
  HostOSVersion :: string
  HardwareModel :: HardwareModel_t
  AppModel :: AppModel_t

record TerminalSessionContext =
  APIKey :: string
  DeviceInfo :: DeviceInfo_t
  PstToken :: string
  Amount :: int
  Currency :: string
  PaymentIntentID :: string

text \<open>The reader object and the five response shapes, field by field as the source declares them.\<close>

record Reader =
  ID :: string
  Object :: string
  DeviceSwVersion :: string
  DeviceType :: string
  IPAddress :: string
  Label :: string
  Livemode :: bool
  Location :: string
  SerialNumber :: string
  Status :: string
  Metadata :: unit

record readersResponse =
  Error :: string
  Object :: string
  URL :: string
  HasMore :: bool
  Data :: "Reader list"

record createPaymentIntentResponse =
  ID :: string

record startNewRPCSessionResponse =
  SDKRPCSessionToken :: string

record getConnectionTokenResponse =
  Secret :: string

record registerReaderResponse =
  IPAddress :: string

text \<open>The zero values with which Go initialises \<^verbatim>\<open>var result T\<close>.\<close>

definition zero_readersResponse :: readersResponse where
  "zero_readersResponse =
     \<lparr>Error = [], readersResponse.Object = [], URL = [], HasMore = False, Data = []\<rparr>"

definition zero_createPaymentIntentResponse :: createPaymentIntentResponse where
  "zero_createPaymentIntentResponse = \<lparr>createPaymentIntentResponse.ID = []\<rparr>"

definition zero_startNewRPCSessionResponse :: startNewRPCSessionResponse where
  "zero_startNewRPCSessionResponse = \<lparr>SDKRPCSessionToken = []\<rparr>"

definition zero_getConnectionTokenResponse :: getConnectionTokenResponse where
  "zero_getConnectionTokenResponse = \<lparr>Secret = []\<rparr>"

definition zero_registerReaderResponse :: registerReaderResponse where
  "zero_registerReaderResponse = \<lparr>registerReaderResponse.IPAddress = []\<rparr>"

subsection \<open>Library values: form data, headers, integers as text\<close>

text \<open>
  \<^verbatim>\<open>url.Values\<close> and \<^verbatim>\<open>http.Header\<close> are both \<^verbatim>\<open>map[string][]string\<close>. The map is an
  association list with one entry per key; \<^verbatim>\<open>Set\<close> replaces the entry of a key by the
  single value. (For a header, \<^verbatim>\<open>Set\<close> first canonicalises the key; the two keys the source
  sets are canonical already.)
\<close>

type_synonym Values = "(string \<times> string list) list"

definition Values_Set :: "string \<Rightarrow> string \<Rightarrow> Values \<Rightarrow> Values" where
  "Values_Set key val v = AList.update key [val] v"


text \<open>
  \<^verbatim>\<open>url.QueryEscape\<close>: letters, digits and \<^verbatim>\<open>- _ . ~\<close> stay, a space becomes \<^verbatim>\<open>+\<close>, every
  other byte becomes \<^verbatim>\<open>%XX\<close> in upper-case hexadecimal.
\<close>

definition unreserved :: "char \<Rightarrow> bool" where
  "unreserved c \<longleftrightarrow>
     (let n = (of_char c :: nat) in
      (97 \<le> n \<and> n \<le> 122) \<or> (65 \<le> n \<and> n \<le> 90) \<or> (48 \<le> n \<and> n \<le> 57) \<or>
      c = CHR ''-'' \<or> c = CHR ''_'' \<or> c = CHR ''.'' \<or> c = CHR ''~'')"

definition upperhex :: "nat \<Rightarrow> char" where
  "upperhex n = ''0123456789ABCDEF'' ! (n mod 16)"

definition escape_byte :: "char \<Rightarrow> string" where
  "escape_byte c =
     (if unreserved c then [c]
      else if c = CHR '' '' then ''+''
      else [CHR ''%'', upperhex (of_char c div 16), upperhex (of_char c mod 16)])"

definition QueryEscape :: "string \<Rightarrow> string" where
  "QueryEscape s = concat (map escape_byte s)"

text \<open>
  \<^verbatim>\<open>Values.Encode\<close>: the keys in sorted order (bytewise), each value written as
  \<^verbatim>\<open>key=value\<close> with both sides escaped, the pairs joined by \<^verbatim>\<open>&\<close>.
\<close>

fun join_amp :: "string list \<Rightarrow> string" where
  "join_amp [] = []"
| "join_amp [p] = p"
| "join_amp (p # q # ps) = p @ ''&'' @ join_amp (q # ps)"

definition Encode :: "Values \<Rightarrow> string" where
  "Encode v =
     join_amp (concat (map (\<lambda>(k, vs). map (\<lambda>x. QueryEscape k @ ''='' @ QueryEscape x) vs)
                           (sort_key fst v)))"

text \<open>\<^verbatim>\<open>strconv.Itoa\<close>: the decimal digits, with a minus sign for a negative number.\<close>

fun digits :: "nat \<Rightarrow> string" where
  "digits n = (if n < 10 then [char_of (48 + n)] else digits (n div 10) @ [char_of (48 + n mod 10)])"

declare digits.simps [simp del]

definition Itoa :: "int \<Rightarrow> string" where
  "Itoa i = (if i < 0 then CHR ''-'' # digits (nat (- i)) else digits (nat i))"

subsection \<open>Requests, responses and the transport\<close>

text \<open>
  The value of a parsed \<^verbatim>\<open>*url.URL\<close> is carried by its text, which is what
  \<^verbatim>\<open>fmt.Sprintf("%s%s", parsedBaseURL, rpcSessionPath)\<close> prints of it.
\<close>

datatype url = ParsedURL (URL_String: string)

text \<open>
  \<^verbatim>\<open>stripe.Client\<close>, with the three fields the operations set; \<open>BaseURL\<close> is a pointer
  (\<open>None\<close> is nil).
\<close>

record Client =
  BaseURL :: "url option"
  APIKey :: string
  Verbose :: bool

text \<open>\<^verbatim>\<open>http.Request\<close>, as \<^verbatim>\<open>http.NewRequest\<close> and the two \<^verbatim>\<open>Header.Set\<close> calls fill it.\<close>

record Request =
  Method :: string
  URL :: url
  Header :: Values
  Body :: string

text \<open>
  A response body is a stream with an identity (\<open>handle\<close>, by which closing it is
  recorded) and the bytes it delivers.
\<close>

record ReadCloser =
  handle :: nat
  bytes :: string

record Response =
  StatusCode :: int
  Body :: ReadCloser

text \<open>
  What is handed to the transport: either a call of \<^verbatim>\<open>client.PerformRequest\<close> with the
  client, the method, the path and the encoded parameters (the source passes
  \<^verbatim>\<open>context.TODO()\<close> and a nil configuration each time), or a request given to
  \<^verbatim>\<open>http.Client.Do\<close>.
\<close>

datatype call =
  ClientCall Client string string string
| DoCall Request

text \<open>
  What \<^verbatim>\<open>http.Client\<close> does with an answer whose status is a redirect: it returns the
  answer as it is (no \<^verbatim>\<open>Location\<close>, or a body that cannot be sent again), it sends a
  follow-up request, or it closes the body of the answer and gives up with an error (a
  \<^verbatim>\<open>Location\<close> that does not parse).
\<close>

datatype hop = Deliver | Follow Request | Abort error

text \<open>
  The environment. The package constants are declared in other files; the format
  \<^verbatim>\<open>stripeCapturePaymentIntentPath\<close> is used only through
  \<^verbatim>\<open>fmt.Sprintf(stripeCapturePaymentIntentPath, id)\<close>, which is the field \<open>fmt_Sprintf\<close>.
  \<open>url_Parse\<close> is \<^verbatim>\<open>url.Parse\<close>: an error or a URL. \<open>transport\<close> is the remote
  platform: given the calls made so far and the present call it yields the Go pair
  \<open>(res, err)\<close>, a response pointer and an error, either of which may be nil (\<open>None\<close>).
  For a \<open>ClientCall\<close> the pair is what \<^verbatim>\<open>PerformRequest\<close> returns; for a \<open>DoCall\<close> it is
  one exchange, a request put on the wire by \<^verbatim>\<open>http.Client\<close> and the answer to it, with the
  error as \<^verbatim>\<open>Do\<close> reports it. \<open>next_hop\<close> is what \<^verbatim>\<open>http.Client\<close> makes of a redirect
  answer: from the requests it has sent in this \<^verbatim>\<open>Do\<close> (the latest last) and the answer to
  the latest it reads the \<^verbatim>\<open>Location\<close> header, resolves it, and chooses the method, the
  headers and the body of the follow-up request. The five decoders are
  \<^verbatim>\<open>json.NewDecoder(body).Decode(&result)\<close> at the five result types: from the bytes of the
  body and the value of \<open>result\<close> before the call they give the value of \<open>result\<close>
  after it and the error that \<open>Decode\<close> returns.
\<close>

record env =
  DefaultAPIBaseURL :: string
  stripeTerminalReadersPath :: string
  stripeTerminalRegisterPath :: string
  stripeTerminalConnectionTokensPath :: string
  stripeCreatePaymentIntentPath :: string
  stripeCapturePaymentIntentPath :: string
  rpcSessionPath :: string
  fmt_Sprintf :: "string \<Rightarrow> string \<Rightarrow> string"
  url_Parse :: "string \<Rightarrow> error + url"
  transport :: "call list \<Rightarrow> call \<Rightarrow> Response option \<times> error option"
  next_hop :: "Request list \<Rightarrow> Response \<Rightarrow> hop"
  Decode_readers :: "string \<Rightarrow> readersResponse \<Rightarrow> readersResponse \<times> error option"
  Decode_startNewRPCSession ::
    "string \<Rightarrow> startNewRPCSessionResponse \<Rightarrow> startNewRPCSessionResponse \<times> error option"
  Decode_getConnectionToken ::
    "string \<Rightarrow> getConnectionTokenResponse \<Rightarrow> getConnectionTokenResponse \<times> error option"
  Decode_createPaymentIntent ::
    "string \<Rightarrow> createPaymentIntentResponse \<Rightarrow> createPaymentIntentResponse \<times> error option"
  Decode_registerReader ::
    "string \<Rightarrow> registerReaderResponse \<Rightarrow> registerReaderResponse \<times> error option"

text \<open>
  The state an operation runs in: its parameter \<open>tsCtx\<close> (Go passes the struct by value, so
  this is the operation's own variable, and an assignment to one of its fields would show
  here), the calls handed to \<^verbatim>\<open>PerformRequest\<close> and \<^verbatim>\<open>http.Client.Do\<close> so far, the
  handles of the bodies closed so far, and the requests that \<^verbatim>\<open>http.Client.Do\<close> has put on
  the wire so far, each in order. (What \<^verbatim>\<open>PerformRequest\<close> puts on the wire is decided in
  package \<^verbatim>\<open>pkg/stripe\<close> and is not recorded.)
\<close>

record state =
  tsCtx :: TerminalSessionContext
  sent :: "call list"
  closed :: "nat list"
  wire :: "Request list"

text \<open>
  What an operation does: it returns its Go result pair, the value and the error (\<open>None\<close>
  is nil), or it panics on a nil pointer.
\<close>

datatype 'a outcome = Return 'a "error option" | Panic

text \<open>
  Modelled from the spec: \<^verbatim>\<open>(*stripe.Client).PerformRequest\<close> is declared in package
  \<^verbatim>\<open>pkg/stripe\<close>; the spec gives its contract as a generic authenticated request function
  taking (context, method, path, encoded body, headers) and returning a raw response plus
  transport error.
\<close>

definition PerformRequest ::
  "env \<Rightarrow> Client \<Rightarrow> string \<Rightarrow> string \<Rightarrow> string \<Rightarrow> state
     \<Rightarrow> (Response option \<times> error option) \<times> state" where
  "PerformRequest e client method path params s =
     (let c = ClientCall client method path params
      in (transport e (sent s) c, s\<lparr>sent := sent s @ [c]\<rparr>))"

text \<open>
  \<^verbatim>\<open>http.Client.Do\<close> on the zero-value client that \<^verbatim>\<open>StartNewRPCSession\<close> builds
  (\<^verbatim>\<open>httpclient := http.Client{}\<close>), which follows redirects. \<open>Do_from\<close> is its loop, run
  after the requests \<open>reqs\<close> have been sent: it sends \<open>req\<close>; a transport error ends the
  call with a nil response; an answer whose status is not 301, 302, 303, 307 or 308 is
  returned; for a redirect answer the follow-up request is built, the default policy
  refuses it when ten requests have been sent already (the answer is then returned together
  with an error), and otherwise the body of the answer is closed and the loop goes on with
  the follow-up. It yields the pair returned, the requests sent, and the handles of the
  bodies the client closed itself.
\<close>

definition is_redirect :: "int \<Rightarrow> bool" where
  "is_redirect c \<longleftrightarrow> c = 301 \<or> c = 302 \<or> c = 303 \<or> c = 307 \<or> c = 308"

definition stopped_after_10_redirects :: error where
  "stopped_after_10_redirects = LibraryError ''stopped after 10 redirects''"

function Do_from ::
  "env \<Rightarrow> call list \<Rightarrow> Request list \<Rightarrow> Request
     \<Rightarrow> (Response option \<times> error option) \<times> Request list \<times> nat list" where
  "Do_from e history reqs req =
     (let (res, err) = transport e (history @ map DoCall reqs) (DoCall req);
          via = reqs @ [req]
      in if err \<noteq> None then ((None, err), via, [])
         else
           (case res of
              None \<Rightarrow> ((None, None), via, [])
            | Some resp \<Rightarrow>
                if is_redirect (StatusCode resp)
                then
                  (case next_hop e via resp of
                     Deliver \<Rightarrow> ((Some resp, None), via, [])
                   | Abort x \<Rightarrow> ((None, Some x), via, [handle (Response.Body resp)])
                   | Follow next \<Rightarrow>
                       if 10 \<le> length via
                       then ((Some resp, Some stopped_after_10_redirects), via,
                             [handle (Response.Body resp)])
                       else
                         (let (r, all_sent, cl) = Do_from e history via next
                          in (r, all_sent, handle (Response.Body resp) # cl)))
                else ((Some resp, None), via, [])))"
  by pat_completeness auto
termination
  by (relation "measure (\<lambda>(e, history, reqs, req). 10 - length reqs)") auto

declare Do_from.simps [simp del]

definition Do :: "env \<Rightarrow> Request \<Rightarrow> state \<Rightarrow> (Response option \<times> error option) \<times> state" where
  "Do e request s =
     (let (r, all_sent, cl) = Do_from e (sent s) [] request
      in (r, s\<lparr>sent := sent s @ [DoCall request],
               closed := closed s @ cl,
               wire := wire s @ all_sent\<rparr>))"

text \<open>
  \<^verbatim>\<open>url.Parse\<close> as the Go pair: \<open>(nil, err)\<close> or \<open>(u, nil)\<close>. Where a nil
  \<^verbatim>\<open>*url.URL\<close> is printed with \<^verbatim>\<open>%s\<close>, \<^verbatim>\<open>fmt\<close> writes \<^verbatim>\<open><nil>\<close>.
\<close>

definition Parse :: "env \<Rightarrow> string \<Rightarrow> url option \<times> error option" where
  "Parse e rawurl = (case url_Parse e rawurl of Inl err \<Rightarrow> (None, Some err) | Inr u \<Rightarrow> (Some u, None))"

definition Sprint_url :: "url option \<Rightarrow> string" where
  "Sprint_url p = (case p of Some u \<Rightarrow> URL_String u | None \<Rightarrow> ''<nil>'')"

text \<open>
  \<^verbatim>\<open>http.NewRequest\<close> with the valid method \<^verbatim>\<open>"POST"\<close>: it parses the URL and fails with the
  parser's error, or returns a request with an empty header.
\<close>

definition NewRequest :: "env \<Rightarrow> string \<Rightarrow> string \<Rightarrow> string \<Rightarrow> Request option \<times> error option" where
  "NewRequest e method rawurl body =
     (case url_Parse e rawurl of
        Inl err \<Rightarrow> (None, Some err)
      | Inr u \<Rightarrow>
          (Some \<lparr>Method = method, Request.URL = u, Header = [], Request.Body = body\<rparr>, None))"

definition Header_Set :: "string \<Rightarrow> string \<Rightarrow> Request \<Rightarrow> Request" where
  "Header_Set key val request = request\<lparr>Header := Values_Set key val (Header request)\<rparr>"

definition Close :: "ReadCloser \<Rightarrow> state \<Rightarrow> state" where
  "Close b s = s\<lparr>closed := closed s @ [handle b]\<rparr>"

definition StatusOK :: int where
  "StatusOK = 200"

subsection \<open>The six operations\<close>

definition DiscoverReaders :: "env \<Rightarrow> state \<Rightarrow> Reader list outcome \<times> state" where
  "DiscoverReaders e s =
     (let (parsedBaseURL, err) = Parse e (DefaultAPIBaseURL e) in
      if err \<noteq> None then (Return [] err, s)
      else
        (let readersList = [] in
         if err \<noteq> None then (Return readersList err, s)
         else
           (let client = \<lparr>BaseURL = parsedBaseURL,
                          Client.APIKey = TerminalSessionContext.APIKey (tsCtx s),
                          Verbose = False\<rparr>;
                ((res, err), s1) =
                  PerformRequest e client ''GET'' (stripeTerminalReadersPath e) [] s
            in if err \<noteq> None then (Return readersList err, s1)
               else
                 (case res of
                    None \<Rightarrow> (Panic, s1)
                  | Some res \<Rightarrow>
                      if StatusCode res \<noteq> StatusOK then (Return readersList err, s1)
                      else
                        (let (result, _) =
                               Decode_readers e (bytes (Response.Body res)) zero_readersResponse;
                             readersList = Data result
                         in (Return readersList None, Close (Response.Body res) s1))))))"

definition StartNewRPCSession :: "env \<Rightarrow> state \<Rightarrow> string outcome \<times> state" where
  "StartNewRPCSession e s =
     (let (parsedBaseURL, err) = Parse e (DefaultAPIBaseURL e) in
      if err \<noteq> None then (Return [] err, s)
      else
        (let stripeTerminalRPCSessionURL = Sprint_url parsedBaseURL @ rpcSessionPath e;
             data = [];
             data = Values_Set ''pos_device_info[device_class]''
                      (DeviceClass (DeviceInfo (tsCtx s))) data;
             data = Values_Set ''pos_device_info[device_uuid]''
                      (DeviceUUID (DeviceInfo (tsCtx s))) data;
             data = Values_Set ''pos_device_info[host_os_version]''
                      (HostOSVersion (DeviceInfo (tsCtx s))) data;
             data = Values_Set ''pos_device_info[hardware_model][pos_info][description]''
                      (Description (POSInfo (HardwareModel (DeviceInfo (tsCtx s))))) data;
             data = Values_Set ''pos_device_info[app_model][app_id]''
                      (AppID (AppModel (DeviceInfo (tsCtx s)))) data;
             data = Values_Set ''pos_device_info[app_model][app_version]''
                      (AppVersion (AppModel (DeviceInfo (tsCtx s)))) data;
             encodedURLData = Encode data;
             (request, err) = NewRequest e ''POST'' stripeTerminalRPCSessionURL encodedURLData
         in if err \<noteq> None then (Return [] err, s)
            else
              (case request of
                 None \<Rightarrow> (Panic, s)
               | Some request \<Rightarrow>
                   (let request = Header_Set ''Content-Type''
                                    ''application/x-www-form-urlencoded'' request;
                        request = Header_Set ''Authorization''
                                    (''Bearer '' @ PstToken (tsCtx s)) request;
                        ((res, err), s1) = Do e request s
                    in if err \<noteq> None then (Return [] err, s1)
                       else
                         (case res of
                            None \<Rightarrow> (Panic, s1)
                          | Some res \<Rightarrow>
                              if StatusCode res \<noteq> StatusOK then (Return [] err, s1)
                              else
                                (let (result, _) =
                                       Decode_startNewRPCSession e (bytes (Response.Body res))
                                         zero_startNewRPCSessionResponse;
                                     sessionToken = SDKRPCSessionToken result
                                 in (Return sessionToken None,
                                     Close (Response.Body res) s1)))))))"

definition GetNewConnectionToken :: "env \<Rightarrow> state \<Rightarrow> string outcome \<times> state" where
  "GetNewConnectionToken e s =
     (let (parsedBaseURL, err) = Parse e (DefaultAPIBaseURL e) in
      if err \<noteq> None then (Return [] err, s)
      else
        (let client = \<lparr>BaseURL = parsedBaseURL,
                       Client.APIKey = TerminalSessionContext.APIKey (tsCtx s),
                       Verbose = False\<rparr>;
             ((res, err), s1) =
               PerformRequest e client ''POST'' (stripeTerminalConnectionTokensPath e) [] s
         in if err \<noteq> None then (Return [] err, s1)
            else
              (case res of
                 None \<Rightarrow> (Panic, s1)
               | Some res \<Rightarrow>
                   if StatusCode res \<noteq> StatusOK then (Return [] err, s1)
                   else
                     (let (result, _) =
                            Decode_getConnectionToken e (bytes (Response.Body res))
                              zero_getConnectionTokenResponse;
                          pstToken = Secret result
                      in (Return pstToken None, Close (Response.Body res) s1)))))"

definition CreatePaymentIntent :: "env \<Rightarrow> state \<Rightarrow> string outcome \<times> state" where
  "CreatePaymentIntent e s =
     (let (parsedBaseURL, err) = Parse e (DefaultAPIBaseURL e) in
      if err \<noteq> None then (Return [] err, s)
      else
        (let amountStr = Itoa (Amount (tsCtx s));
             client = \<lparr>BaseURL = parsedBaseURL,
                       Client.APIKey = TerminalSessionContext.APIKey (tsCtx s),
                       Verbose = False\<rparr>;
             data = [];
             data = Values_Set ''amount'' amountStr data;
             data = Values_Set ''currency'' (Currency (tsCtx s)) data;
             data = Values_Set ''payment_method_types[]'' ''card_present'' data;
             data = Values_Set ''capture_method'' ''manual'' data;
             data = Values_Set ''description'' ''Stripe CLI Test Payment'' data;
             ((res, err), s1) =
               PerformRequest e client ''POST'' (stripeCreatePaymentIntentPath e) (Encode data) s
         in if err \<noteq> None then (Return [] err, s1)
            else
              (case res of
                 None \<Rightarrow> (Panic, s1)
               | Some res \<Rightarrow>
                   if StatusCode res \<noteq> StatusOK then (Return [] err, s1)
                   else
                     (let (result, _) =
                            Decode_createPaymentIntent e (bytes (Response.Body res))
                              zero_createPaymentIntentResponse;
                          paymentIntentID = createPaymentIntentResponse.ID result
                      in (Return paymentIntentID None, Close (Response.Body res) s1)))))"

definition CapturePaymentIntent :: "env \<Rightarrow> state \<Rightarrow> unit outcome \<times> state" where
  "CapturePaymentIntent e s =
     (let (parsedBaseURL, err) = Parse e (DefaultAPIBaseURL e) in
      if err \<noteq> None then (Return () err, s)
      else
        (let stripeCapturePaymentIntentURL =
               fmt_Sprintf e (stripeCapturePaymentIntentPath e) (PaymentIntentID (tsCtx s));
             client = \<lparr>BaseURL = parsedBaseURL,
                       Client.APIKey = TerminalSessionContext.APIKey (tsCtx s),
                       Verbose = False\<rparr>;
             ((res, err), s1) =
               PerformRequest e client ''POST'' stripeCapturePaymentIntentURL [] s
         in if err \<noteq> None then (Return () (Some ErrCapturePaymentIntentFailed), s1)
            else
              (case res of
                 None \<Rightarrow> (Panic, s1)
               | Some res \<Rightarrow>
                   if StatusCode res \<noteq> StatusOK
                   then (Return () (Some ErrCapturePaymentIntentFailed), s1)
                   else (Return () None, Close (Response.Body res) s1))))"

definition RegisterReader :: "env \<Rightarrow> string \<Rightarrow> state \<Rightarrow> string outcome \<times> state" where
  "RegisterReader e regcode s =
     (let (parsedBaseURL, err) = Parse e (DefaultAPIBaseURL e) in
      if err \<noteq> None then (Return [] err, s)
      else
        (let client = \<lparr>BaseURL = parsedBaseURL,
                       Client.APIKey = TerminalSessionContext.APIKey (tsCtx s),
                       Verbose = False\<rparr>;
             data = [];
             data = Values_Set ''registration_code'' regcode data;
             ((res, err), s1) =
               PerformRequest e client ''POST'' (stripeTerminalRegisterPath e) (Encode data) s
         in if err \<noteq> None then (Return [] err, s1)
            else
              (case res of
                 None \<Rightarrow> (Panic, s1)
               | Some res \<Rightarrow>
                   if StatusCode res \<noteq> StatusOK then (Return [] err, s1)
                   else
                     (let (result, _) =
                            Decode_registerReader e (bytes (Response.Body res))
                              zero_registerReaderResponse;
                          IPAddress = registerReaderResponse.IPAddress result
                      in (Return IPAddress None, Close (Response.Body res) s1)))))"

subsection \<open>The reader list without the repeated check\<close>

text \<open>
  The body of \<^verbatim>\<open>DiscoverReaders\<close> with its lines 69 to 71, the second test of \<open>err\<close>,
  deleted; it is compared with the function as written.
\<close>

definition DiscoverReaders_single_check :: "env \<Rightarrow> state \<Rightarrow> Reader list outcome \<times> state" where
  "DiscoverReaders_single_check e s =
     (let (parsedBaseURL, err) = Parse e (DefaultAPIBaseURL e) in
      if err \<noteq> None then (Return [] err, s)
      else
        (let readersList = [];
             client = \<lparr>BaseURL = parsedBaseURL,
                       Client.APIKey = TerminalSessionContext.APIKey (tsCtx s),
                       Verbose = False\<rparr>;
             ((res, err), s1) =
               PerformRequest e client ''GET'' (stripeTerminalReadersPath e) [] s
         in if err \<noteq> None then (Return readersList err, s1)
            else
              (case res of
                 None \<Rightarrow> (Panic, s1)
               | Some res \<Rightarrow>
                   if StatusCode res \<noteq> StatusOK then (Return readersList err, s1)
                   else
                     (let (result, _) =
                            Decode_readers e (bytes (Response.Body res)) zero_readersResponse;
                          readersList = Data result
                      in (Return readersList None, Close (Response.Body res) s1)))))"

subsection \<open>A stub platform\<close>

text \<open>
  Concrete environments on which the operations are run: the constants take sample values,
  the stub parser refuses control characters and accepts everything else, the stub decoders
  know one well-formed body each (two for the reader list) and report a syntax error,
  leaving \<open>result\<close> untouched, on every other body. Every redirect of the stub platform
  points to \<open>stub_location\<close>, on the same host, and \<open>stub_next_hop\<close> builds the follow-up
  as \<^verbatim>\<open>http.Client\<close> does there: it keeps the headers and adds \<^verbatim>\<open>Referer\<close>; after 307 or
  308 it keeps the method and the body, after 301, 302 or 303 it sends a \<^verbatim>\<open>GET\<close> (a
  \<^verbatim>\<open>HEAD\<close> stays) without a body. The transport is a parameter: \<open>replies status b\<close>
  answers every call with the given status and body, \<open>redirects_once b\<close> answers the first
  call with 307 and every later one with 200 and the body \<open>b\<close>, \<open>fails\<close> answers every call
  with a transport error.
\<close>

definition reader_with_id :: "string \<Rightarrow> Reader" where
  "reader_with_id i =
     \<lparr>Reader.ID = i, Reader.Object = [], DeviceSwVersion = [], DeviceType = [],
      Reader.IPAddress = [], Label = [], Livemode = False, Location = [], SerialNumber = [],
      Status = [], Metadata = ()\<rparr>"

definition two_readers_body :: string where
  \<open>two_readers_body = ''{"data":[{"id":"tmr_1"},{"id":"tmr_2"}],"has_more":false}''\<close>

definition twin_readers_body :: string where
  \<open>twin_readers_body = ''{"data":[{"id":"tmr_1"},{"id":"tmr_1"}],"has_more":false}''\<close>

definition stub_syntax_error :: error where
  "stub_syntax_error = LibraryError ''invalid character looking for beginning of value''"

definition stub_Decode_readers :: "string \<Rightarrow> readersResponse \<Rightarrow> readersResponse \<times> error option" where
  "stub_Decode_readers b r =
     (if b = two_readers_body
      then (r\<lparr>HasMore := False, Data := [reader_with_id ''tmr_1'', reader_with_id ''tmr_2'']\<rparr>, None)
      else if b = twin_readers_body
      then (r\<lparr>HasMore := False, Data := [reader_with_id ''tmr_1'', reader_with_id ''tmr_1'']\<rparr>, None)
      else (r, Some stub_syntax_error))"

definition stub_Decode_startNewRPCSession ::
  "string \<Rightarrow> startNewRPCSessionResponse \<Rightarrow> startNewRPCSessionResponse \<times> error option" where
  \<open>stub_Decode_startNewRPCSession b r =
     (if b = ''{"sdk_rpc_session_token":"rpc_1"}'' then (r\<lparr>SDKRPCSessionToken := ''rpc_1''\<rparr>, None)
      else (r, Some stub_syntax_error))\<close>

definition stub_Decode_getConnectionToken ::
  "string \<Rightarrow> getConnectionTokenResponse \<Rightarrow> getConnectionTokenResponse \<times> error option" where
  \<open>stub_Decode_getConnectionToken b r =
     (if b = ''{"secret":"pst_1"}'' then (r\<lparr>Secret := ''pst_1''\<rparr>, None)
      else (r, Some stub_syntax_error))\<close>

definition stub_Decode_createPaymentIntent ::
  "string \<Rightarrow> createPaymentIntentResponse \<Rightarrow> createPaymentIntentResponse \<times> error option" where
  \<open>stub_Decode_createPaymentIntent b r =
     (if b = ''{"id":"pi_123"}'' then (r\<lparr>createPaymentIntentResponse.ID := ''pi_123''\<rparr>, None)
      else (r, Some stub_syntax_error))\<close>

definition stub_Decode_registerReader ::
  "string \<Rightarrow> registerReaderResponse \<Rightarrow> registerReaderResponse \<times> error option" where
  \<open>stub_Decode_registerReader b r =
     (if b = ''{"ip_address":"10.0.0.7"}'' then (r\<lparr>registerReaderResponse.IPAddress := ''10.0.0.7''\<rparr>, None)
      else (r, Some stub_syntax_error))\<close>

definition stub_Parse :: "string \<Rightarrow> error + url" where
  "stub_Parse rawurl =
     (if list_ex (\<lambda>c. (of_char c :: nat) < 32) rawurl
      then Inl (LibraryError ''net/url: invalid control character in URL'')
      else Inr (ParsedURL rawurl))"

definition stub_Sprintf :: "string \<Rightarrow> string \<Rightarrow> string" where
  "stub_Sprintf format operand =
     takeWhile (\<lambda>c. c \<noteq> CHR ''%'') format @ operand @ drop 2 (dropWhile (\<lambda>c. c \<noteq> CHR ''%'') format)"

definition stub_location :: string where
  "stub_location = ''https://api.stripe.com/v1/terminal/connection_tokens/activate/''"

definition stub_next_hop :: "Request list \<Rightarrow> Response \<Rightarrow> hop" where
  "stub_next_hop via resp =
     (case rev via of
        [] \<Rightarrow> Deliver
      | req # _ \<Rightarrow>
          (let referer = Values_Set ''Referer'' (URL_String (Request.URL req)) (Header req)
           in if StatusCode resp = 307 \<or> StatusCode resp = 308
              then Follow (req\<lparr>Request.URL := ParsedURL stub_location, Header := referer\<rparr>)
              else Follow (req\<lparr>Method := (if Method req = ''HEAD'' then ''HEAD'' else ''GET''),
                                Request.URL := ParsedURL stub_location,
                                Header := referer, Request.Body := []\<rparr>)))"

definition stub_env :: "(call list \<Rightarrow> call \<Rightarrow> Response option \<times> error option) \<Rightarrow> env" where
  "stub_env t =
     \<lparr>DefaultAPIBaseURL = ''https://api.stripe.com'',
      stripeTerminalReadersPath = ''/v1/terminal/readers'',
      stripeTerminalRegisterPath = ''/v1/terminal/readers'',
      stripeTerminalConnectionTokensPath = ''/v1/terminal/connection_tokens'',
      stripeCreatePaymentIntentPath = ''/v1/payment_intents'',
      stripeCapturePaymentIntentPath = ''/v1/payment_intents/%v/capture'',
      rpcSessionPath = ''/v1/terminal/connection_tokens/activate'',
      fmt_Sprintf = stub_Sprintf,
      url_Parse = stub_Parse,
      transport = t,
      next_hop = stub_next_hop,
      Decode_readers = stub_Decode_readers,
      Decode_startNewRPCSession = stub_Decode_startNewRPCSession,
      Decode_getConnectionToken = stub_Decode_getConnectionToken,
      Decode_createPaymentIntent = stub_Decode_createPaymentIntent,
      Decode_registerReader = stub_Decode_registerReader\<rparr>"

definition replies :: "int \<Rightarrow> string \<Rightarrow> call list \<Rightarrow> call \<Rightarrow> Response option \<times> error option" where
  "replies status b history c =
     (Some \<lparr>StatusCode = status, Response.Body = \<lparr>handle = length history, bytes = b\<rparr>\<rparr>, None)"

definition redirects_once ::
  "string \<Rightarrow> call list \<Rightarrow> call \<Rightarrow> Response option \<times> error option" where
  "redirects_once b history c =
     (if history = []
      then (Some \<lparr>StatusCode = 307, Response.Body = \<lparr>handle = 0, bytes = []\<rparr>\<rparr>, None)
      else (Some \<lparr>StatusCode = 200, Response.Body = \<lparr>handle = length history, bytes = b\<rparr>\<rparr>,
            None))"

definition fails :: "call list \<Rightarrow> call \<Rightarrow> Response option \<times> error option" where
  "fails history c = (None, Some (LibraryError ''dial tcp: connection refused''))"

definition stub_ctx :: TerminalSessionContext where
  "stub_ctx =
     \<lparr>TerminalSessionContext.APIKey = ''sk_test_123'',
      DeviceInfo = \<lparr>DeviceClass = ''POS'', DeviceUUID = ''uuid-1'', HostOSVersion = ''11'',
                    HardwareModel = \<lparr>POSInfo = \<lparr>Description = ''cli''\<rparr>\<rparr>,
                    AppModel = \<lparr>AppID = ''stripe-cli'', AppVersion = ''1.0''\<rparr>\<rparr>,
      PstToken = ''pst_test_456'',
      Amount = 1999,
      Currency = ''usd'',
      PaymentIntentID = ''pi_123''\<rparr>"

definition stub_state :: state where
  "stub_state = \<lparr>tsCtx = stub_ctx, sent = [], closed = [], wire = []\<rparr>"

definition not_found_body :: string where
  \<open>not_found_body = ''{"error":{"message":"Unrecognized request URL"}}''\<close>

definition html_body :: string where
  "html_body = ''<html>Bad Gateway</html>''"

definition rpc_session_body :: string where
  \<open>rpc_session_body = ''{"sdk_rpc_session_token":"rpc_1"}''\<close>

subsection \<open>Names for the calls\<close>

text \<open>
  Shorthand for what the operations build once the base URL has parsed to \<open>u\<close>: the client
  of the five operations that go through \<^verbatim>\<open>PerformRequest\<close>, the form fields of
  \<^verbatim>\<open>CreatePaymentIntent\<close> and of \<^verbatim>\<open>StartNewRPCSession\<close> in the order in which the source
  sets them, the request that \<^verbatim>\<open>StartNewRPCSession\<close> gives to \<^verbatim>\<open>http.Client.Do\<close>, and the
  call of each of the other five.
\<close>

abbreviation client_of :: "state \<Rightarrow> url \<Rightarrow> Client" where
  "client_of s u \<equiv>
     \<lparr>BaseURL = Some u, Client.APIKey = TerminalSessionContext.APIKey (tsCtx s), Verbose = False\<rparr>"

abbreviation payment_fields :: "TerminalSessionContext \<Rightarrow> Values" where
  "payment_fields c \<equiv>
     [(''amount'', [Itoa (Amount c)]),
      (''currency'', [Currency c]),
      (''payment_method_types[]'', [''card_present'']),
      (''capture_method'', [''manual'']),
      (''description'', [''Stripe CLI Test Payment''])]"

abbreviation device_fields :: "TerminalSessionContext \<Rightarrow> Values" where
  "device_fields c \<equiv>
     [(''pos_device_info[device_class]'', [DeviceClass (DeviceInfo c)]),
      (''pos_device_info[device_uuid]'', [DeviceUUID (DeviceInfo c)]),
      (''pos_device_info[host_os_version]'', [HostOSVersion (DeviceInfo c)]),
      (''pos_device_info[hardware_model][pos_info][description]'',
         [Description (POSInfo (HardwareModel (DeviceInfo c)))]),
      (''pos_device_info[app_model][app_id]'', [AppID (AppModel (DeviceInfo c))]),
      (''pos_device_info[app_model][app_version]'', [AppVersion (AppModel (DeviceInfo c))])]"

abbreviation session_request :: "state \<Rightarrow> url \<Rightarrow> Request" where
  "session_request s u' \<equiv>
     \<lparr>Method = ''POST'', Request.URL = u',
      Header = [(''Content-Type'', [''application/x-www-form-urlencoded'']),
                (''Authorization'', [''Bearer '' @ PstToken (tsCtx s)])],
      Request.Body = Encode (device_fields (tsCtx s))\<rparr>"

abbreviation readers_call :: "env \<Rightarrow> state \<Rightarrow> url \<Rightarrow> call" where
  "readers_call e s u \<equiv> ClientCall (client_of s u) ''GET'' (stripeTerminalReadersPath e) []"

abbreviation token_call :: "env \<Rightarrow> state \<Rightarrow> url \<Rightarrow> call" where
  "token_call e s u \<equiv>
     ClientCall (client_of s u) ''POST'' (stripeTerminalConnectionTokensPath e) []"

abbreviation create_call :: "env \<Rightarrow> state \<Rightarrow> url \<Rightarrow> call" where
  "create_call e s u \<equiv>
     ClientCall (client_of s u) ''POST'' (stripeCreatePaymentIntentPath e)
       (Encode (payment_fields (tsCtx s)))"

abbreviation capture_call :: "env \<Rightarrow> state \<Rightarrow> url \<Rightarrow> call" where
  "capture_call e s u \<equiv>
     ClientCall (client_of s u) ''POST''
       (fmt_Sprintf e (stripeCapturePaymentIntentPath e) (PaymentIntentID (tsCtx s))) []"

abbreviation register_call :: "env \<Rightarrow> string \<Rightarrow> state \<Rightarrow> url \<Rightarrow> call" where
  "register_call e regcode s u \<equiv>
     ClientCall (client_of s u) ''POST'' (stripeTerminalRegisterPath e)
       (Encode [(''registration_code'', [regcode])])"

section \<open>Properties\<close>

subsection \<open>The call and the result of each operation\<close>

text \<open>
  Shared facts: which call an operation hands to the transport, what it returns for each
  answer of the transport, and which body it closes.
\<close>

text \<open>The loop of \<^verbatim>\<open>http.Client.Do\<close>: where it ends at once, and how far it can go.\<close>

lemma Do_from_error:
  "transport e (history @ map DoCall reqs) (DoCall req) = (res, Some x) \<Longrightarrow>
   Do_from e history reqs req = ((None, Some x), reqs @ [req], [])"
  by (simp add: Do_from.simps [of e history reqs req])

lemma Do_from_final:
  "transport e (history @ map DoCall reqs) (DoCall req) = (Some r, None) \<Longrightarrow>
   \<not> is_redirect (StatusCode r) \<Longrightarrow>
   Do_from e history reqs req = ((Some r, None), reqs @ [req], [])"
  by (simp add: Do_from.simps [of e history reqs req])

lemma Do_first_error:
  "transport e history (DoCall req) = (res, Some x) \<Longrightarrow>
   Do_from e history [] req = ((None, Some x), [req], [])"
  using Do_from_error [of e history "[]" req res x] by simp

lemma Do_first_nil:
  "transport e history (DoCall req) = (None, None) \<Longrightarrow>
   Do_from e history [] req = ((None, None), [req], [])"
  by (simp add: Do_from.simps [of e history "[]" req])

lemma Do_first_final:
  "transport e history (DoCall req) = (Some r, None) \<Longrightarrow>
   \<not> is_redirect (StatusCode r) \<Longrightarrow>
   Do_from e history [] req = ((Some r, None), [req], [])"
  using Do_from_final [of e history "[]" req r] by simp

lemma Do_from_sent:
  "\<exists>rest. fst (snd (Do_from e history reqs req)) = reqs @ req # rest \<and>
          length (reqs @ req # rest) \<le> max 10 (Suc (length reqs))"
proof (induction e history reqs req rule: Do_from.induct)
  case (1 e history reqs req)
  show ?case
  proof (cases "transport e (history @ map DoCall reqs) (DoCall req)")
    case (Pair res err)
    show ?thesis
    proof (cases err)
      case (Some x)
      with Pair show ?thesis by (simp add: Do_from_error)
    next
      case None
      note err = None
      show ?thesis
      proof (cases res)
        case None
        with Pair err show ?thesis by (simp add: Do_from.simps [of e history reqs req])
      next
        case (Some resp)
        show ?thesis
        proof (cases "is_redirect (StatusCode resp)")
          case False
          with Pair err Some show ?thesis by (simp add: Do_from_final)
        next
          case True
          show ?thesis
          proof (cases "next_hop e (reqs @ [req]) resp")
            case Deliver
            with Pair err Some True show ?thesis
              by (simp add: Do_from.simps [of e history reqs req])
          next
            case (Abort x)
            with Pair err Some True show ?thesis
              by (simp add: Do_from.simps [of e history reqs req])
          next
            case (Follow nxt)
            show ?thesis
            proof (cases "10 \<le> length (reqs @ [req])")
              case True
              with Pair err Some \<open>is_redirect (StatusCode resp)\<close> Follow show ?thesis
                by (simp add: Do_from.simps [of e history reqs req])
            next
              case False
              have ne: "\<not> err \<noteq> None" using err by simp
              from "1.IH" [OF refl Pair [symmetric] refl ne Some
                  \<open>is_redirect (StatusCode resp)\<close> Follow False]
              obtain rest where
                r: "fst (snd (Do_from e history (reqs @ [req]) nxt)) = (reqs @ [req]) @ nxt # rest"
                and l: "length ((reqs @ [req]) @ nxt # rest) \<le> max 10 (Suc (length (reqs @ [req])))"
                by auto
              have "fst (snd (Do_from e history reqs req)) =
                      fst (snd (Do_from e history (reqs @ [req]) nxt))"
                using Pair err Some \<open>is_redirect (StatusCode resp)\<close> Follow False
                by (simp add: Do_from.simps [of e history reqs req] split: prod.splits)
              with r l False show ?thesis by auto
            qed
          qed
        qed
      qed
    qed
  qed
qed

lemma Do_alt:
  "Do e request s =
     (fst (Do_from e (sent s) [] request),
      s\<lparr>sent := sent s @ [DoCall request],
        closed := closed s @ snd (snd (Do_from e (sent s) [] request)),
        wire := wire s @ fst (snd (Do_from e (sent s) [] request))\<rparr>)"
  by (simp add: Do_def case_prod_beta)

lemmas step_defs = PerformRequest_def Do_alt Parse_def NewRequest_def Close_def Let_def
  Header_Set_def Values_Set_def Sprint_url_def

lemma sent_DiscoverReaders:
  "sent (snd (DiscoverReaders e s)) =
     (case url_Parse e (DefaultAPIBaseURL e) of
        Inl err \<Rightarrow> sent s
      | Inr u \<Rightarrow> sent s @ [ClientCall (client_of s u) ''GET'' (stripeTerminalReadersPath e) []])"
  by (simp add: DiscoverReaders_def step_defs split: sum.splits option.splits prod.splits)

lemma sent_GetNewConnectionToken:
  "sent (snd (GetNewConnectionToken e s)) =
     (case url_Parse e (DefaultAPIBaseURL e) of
        Inl err \<Rightarrow> sent s
      | Inr u \<Rightarrow>
          sent s @ [ClientCall (client_of s u) ''POST'' (stripeTerminalConnectionTokensPath e) []])"
  by (simp add: GetNewConnectionToken_def step_defs split: sum.splits option.splits prod.splits)

lemma sent_CreatePaymentIntent:
  "sent (snd (CreatePaymentIntent e s)) =
     (case url_Parse e (DefaultAPIBaseURL e) of
        Inl err \<Rightarrow> sent s
      | Inr u \<Rightarrow>
          sent s @ [ClientCall (client_of s u) ''POST'' (stripeCreatePaymentIntentPath e)
                      (Encode (payment_fields (tsCtx s)))])"
  by (simp add: CreatePaymentIntent_def step_defs split: sum.splits option.splits prod.splits)

lemma sent_CapturePaymentIntent:
  "sent (snd (CapturePaymentIntent e s)) =
     (case url_Parse e (DefaultAPIBaseURL e) of
        Inl err \<Rightarrow> sent s
      | Inr u \<Rightarrow>
          sent s @ [ClientCall (client_of s u) ''POST''
                      (fmt_Sprintf e (stripeCapturePaymentIntentPath e) (PaymentIntentID (tsCtx s)))
                      []])"
  by (simp add: CapturePaymentIntent_def step_defs split: sum.splits option.splits prod.splits)

lemma sent_RegisterReader:
  "sent (snd (RegisterReader e regcode s)) =
     (case url_Parse e (DefaultAPIBaseURL e) of
        Inl err \<Rightarrow> sent s
      | Inr u \<Rightarrow>
          sent s @ [ClientCall (client_of s u) ''POST'' (stripeTerminalRegisterPath e)
                      (Encode [(''registration_code'', [regcode])])])"
  by (simp add: RegisterReader_def step_defs split: sum.splits option.splits prod.splits)


lemmas op_defs = DiscoverReaders_def StartNewRPCSession_def GetNewConnectionToken_def
  CreatePaymentIntent_def CapturePaymentIntent_def RegisterReader_def

text \<open>What each operation returns, and which bodies it closes, once the base URL has parsed.\<close>

lemma DiscoverReaders_run:
  assumes "url_Parse e (DefaultAPIBaseURL e) = Inr u"
    and "transport e (sent s) (ClientCall (client_of s u) ''GET'' (stripeTerminalReadersPath e) [])
           = (res, err)"
  shows "fst (DiscoverReaders e s) =
           (case err of
              Some x \<Rightarrow> Return [] (Some x)
            | None \<Rightarrow>
                (case res of
                   None \<Rightarrow> Panic
                 | Some r \<Rightarrow>
                     if StatusCode r = 200
                     then Return (Data (fst (Decode_readers e (bytes (Response.Body r))
                                               zero_readersResponse))) None
                     else Return [] None))"
    and "closed (snd (DiscoverReaders e s)) =
           (case (res, err) of
              (Some r, None) \<Rightarrow>
                if StatusCode r = 200 then closed s @ [handle (Response.Body r)] else closed s
            | _ \<Rightarrow> closed s)"
  using assms
  by (simp_all add: DiscoverReaders_def step_defs StatusOK_def
        split: sum.splits option.splits prod.splits)

lemma GetNewConnectionToken_run:
  assumes "url_Parse e (DefaultAPIBaseURL e) = Inr u"
    and "transport e (sent s)
           (ClientCall (client_of s u) ''POST'' (stripeTerminalConnectionTokensPath e) [])
           = (res, err)"
  shows "fst (GetNewConnectionToken e s) =
           (case err of
              Some x \<Rightarrow> Return [] (Some x)
            | None \<Rightarrow>
                (case res of
                   None \<Rightarrow> Panic
                 | Some r \<Rightarrow>
                     if StatusCode r = 200
                     then Return (Secret (fst (Decode_getConnectionToken e (bytes (Response.Body r))
                                                 zero_getConnectionTokenResponse))) None
                     else Return [] None))"
    and "closed (snd (GetNewConnectionToken e s)) =
           (case (res, err) of
              (Some r, None) \<Rightarrow>
                if StatusCode r = 200 then closed s @ [handle (Response.Body r)] else closed s
            | _ \<Rightarrow> closed s)"
  using assms
  by (simp_all add: GetNewConnectionToken_def step_defs StatusOK_def
        split: sum.splits option.splits prod.splits)

lemma CreatePaymentIntent_run:
  assumes "url_Parse e (DefaultAPIBaseURL e) = Inr u"
    and "transport e (sent s)
           (ClientCall (client_of s u) ''POST'' (stripeCreatePaymentIntentPath e)
              (Encode (payment_fields (tsCtx s))))
           = (res, err)"
  shows "fst (CreatePaymentIntent e s) =
           (case err of
              Some x \<Rightarrow> Return [] (Some x)
            | None \<Rightarrow>
                (case res of
                   None \<Rightarrow> Panic
                 | Some r \<Rightarrow>
                     if StatusCode r = 200
                     then Return (createPaymentIntentResponse.ID
                                    (fst (Decode_createPaymentIntent e (bytes (Response.Body r))
                                            zero_createPaymentIntentResponse))) None
                     else Return [] None))"
    and "closed (snd (CreatePaymentIntent e s)) =
           (case (res, err) of
              (Some r, None) \<Rightarrow>
                if StatusCode r = 200 then closed s @ [handle (Response.Body r)] else closed s
            | _ \<Rightarrow> closed s)"
  using assms
  by (simp_all add: CreatePaymentIntent_def step_defs StatusOK_def
        split: sum.splits option.splits prod.splits)

lemma RegisterReader_run:
  assumes "url_Parse e (DefaultAPIBaseURL e) = Inr u"
    and "transport e (sent s)
           (ClientCall (client_of s u) ''POST'' (stripeTerminalRegisterPath e)
              (Encode [(''registration_code'', [regcode])]))
           = (res, err)"
  shows "fst (RegisterReader e regcode s) =
           (case err of
              Some x \<Rightarrow> Return [] (Some x)
            | None \<Rightarrow>
                (case res of
                   None \<Rightarrow> Panic
                 | Some r \<Rightarrow>
                     if StatusCode r = 200
                     then Return (registerReaderResponse.IPAddress
                                    (fst (Decode_registerReader e (bytes (Response.Body r))
                                            zero_registerReaderResponse))) None
                     else Return [] None))"
    and "closed (snd (RegisterReader e regcode s)) =
           (case (res, err) of
              (Some r, None) \<Rightarrow>
                if StatusCode r = 200 then closed s @ [handle (Response.Body r)] else closed s
            | _ \<Rightarrow> closed s)"
  using assms
  by (simp_all add: RegisterReader_def step_defs StatusOK_def
        split: sum.splits option.splits prod.splits)

lemma CapturePaymentIntent_run:
  assumes "url_Parse e (DefaultAPIBaseURL e) = Inr u"
    and "transport e (sent s)
           (ClientCall (client_of s u) ''POST''
              (fmt_Sprintf e (stripeCapturePaymentIntentPath e) (PaymentIntentID (tsCtx s))) [])
           = (res, err)"
  shows "fst (CapturePaymentIntent e s) =
           (case err of
              Some x \<Rightarrow> Return () (Some ErrCapturePaymentIntentFailed)
            | None \<Rightarrow>
                (case res of
                   None \<Rightarrow> Panic
                 | Some r \<Rightarrow>
                     if StatusCode r = 200 then Return () None
                     else Return () (Some ErrCapturePaymentIntentFailed)))"
    and "closed (snd (CapturePaymentIntent e s)) =
           (case (res, err) of
              (Some r, None) \<Rightarrow>
                if StatusCode r = 200 then closed s @ [handle (Response.Body r)] else closed s
            | _ \<Rightarrow> closed s)"
  using assms
  by (simp_all add: CapturePaymentIntent_def step_defs StatusOK_def
        split: sum.splits option.splits prod.splits)

lemma parse_failure:
  assumes "url_Parse e (DefaultAPIBaseURL e) = Inl x"
  shows "DiscoverReaders e s = (Return [] (Some x), s)"
    and "StartNewRPCSession e s = (Return [] (Some x), s)"
    and "GetNewConnectionToken e s = (Return [] (Some x), s)"
    and "CreatePaymentIntent e s = (Return [] (Some x), s)"
    and "CapturePaymentIntent e s = (Return () (Some x), s)"
    and "RegisterReader e regcode s = (Return [] (Some x), s)"
  using assms by (simp_all add: op_defs Parse_def)

text \<open>
  \<^verbatim>\<open>StartNewRPCSession\<close> in one piece: the two parses, the one call of \<^verbatim>\<open>Do\<close>, and what
  the operation makes of its result.
\<close>

lemma StartNewRPCSession_unfold:
  "StartNewRPCSession e s =
     (case url_Parse e (DefaultAPIBaseURL e) of
        Inl x \<Rightarrow> (Return [] (Some x), s)
      | Inr u \<Rightarrow>
          (case url_Parse e (URL_String u @ rpcSessionPath e) of
             Inl x \<Rightarrow> (Return [] (Some x), s)
           | Inr u' \<Rightarrow>
               (case Do_from e (sent s) [] (session_request s u') of
                  ((res, err), ws, cl) \<Rightarrow>
                    (let s1 = s\<lparr>sent := sent s @ [DoCall (session_request s u')],
                                closed := closed s @ cl, wire := wire s @ ws\<rparr>
                     in case err of
                          Some x \<Rightarrow> (Return [] (Some x), s1)
                        | None \<Rightarrow>
                            (case res of
                               None \<Rightarrow> (Panic, s1)
                             | Some r \<Rightarrow>
                                 if StatusCode r = 200
                                 then (Return (SDKRPCSessionToken
                                         (fst (Decode_startNewRPCSession e (bytes (Response.Body r))
                                                 zero_startNewRPCSessionResponse))) None,
                                       s1\<lparr>closed := closed s1 @ [handle (Response.Body r)]\<rparr>)
                                 else (Return [] None, s1))))))"
proof (cases "url_Parse e (DefaultAPIBaseURL e)")
  case (Inl x)
  then show ?thesis by (simp add: StartNewRPCSession_def Parse_def)
next
  case (Inr u)
  note p = Inr
  show ?thesis
  proof (cases "url_Parse e (URL_String u @ rpcSessionPath e)")
    case (Inl x)
    with p show ?thesis
      by (simp add: StartNewRPCSession_def Parse_def NewRequest_def Sprint_url_def Let_def)
  next
    case (Inr u')
    note q = Inr
    obtain res err ws cl where
      d: "Do_from e (sent s) [] (session_request s u') = ((res, err), ws, cl)"
      by (metis prod.exhaust)
    show ?thesis
    proof (cases err)
      case (Some x)
      with p q d show ?thesis
        by (simp add: StartNewRPCSession_def Parse_def NewRequest_def Sprint_url_def Let_def
              Header_Set_def Values_Set_def Do_def)
    next
      case None
      note err = None
      show ?thesis
      proof (cases res)
        case None
        with p q d err show ?thesis
          by (simp add: StartNewRPCSession_def Parse_def NewRequest_def Sprint_url_def Let_def
                Header_Set_def Values_Set_def Do_def)
      next
        case (Some r)
        with p q d err show ?thesis
          by (simp add: StartNewRPCSession_def Parse_def NewRequest_def Sprint_url_def Let_def
                Header_Set_def Values_Set_def Do_def Close_def StatusOK_def case_prod_beta)
      qed
    qed
  qed
qed

lemma sent_StartNewRPCSession:
  "sent (snd (StartNewRPCSession e s)) =
     (case url_Parse e (DefaultAPIBaseURL e) of
        Inl err \<Rightarrow> sent s
      | Inr u \<Rightarrow>
          (case url_Parse e (URL_String u @ rpcSessionPath e) of
             Inl err \<Rightarrow> sent s
           | Inr u' \<Rightarrow> sent s @ [DoCall (session_request s u')]))"
  by (simp add: StartNewRPCSession_unfold Let_def split: sum.splits prod.splits option.splits)

lemma StartNewRPCSession_after_Do:
  assumes "url_Parse e (DefaultAPIBaseURL e) = Inr u"
    and "url_Parse e (URL_String u @ rpcSessionPath e) = Inr u'"
    and "Do_from e (sent s) [] (session_request s u') = ((res, err), ws, cl)"
  shows "fst (StartNewRPCSession e s) =
           (case err of
              Some x \<Rightarrow> Return [] (Some x)
            | None \<Rightarrow>
                (case res of
                   None \<Rightarrow> Panic
                 | Some r \<Rightarrow>
                     if StatusCode r = 200
                     then Return (SDKRPCSessionToken
                                    (fst (Decode_startNewRPCSession e (bytes (Response.Body r))
                                            zero_startNewRPCSessionResponse))) None
                     else Return [] None))"
    and "closed (snd (StartNewRPCSession e s)) =
           (case (res, err) of
              (Some r, None) \<Rightarrow>
                if StatusCode r = 200 then closed s @ cl @ [handle (Response.Body r)]
                else closed s @ cl
            | _ \<Rightarrow> closed s @ cl)"
    and "wire (snd (StartNewRPCSession e s)) = wire s @ ws"
  using assms
  by (simp_all add: StartNewRPCSession_unfold Let_def split: option.splits)

lemma StartNewRPCSession_bad_session_url:
  assumes "url_Parse e (DefaultAPIBaseURL e) = Inr u"
    and "url_Parse e (URL_String u @ rpcSessionPath e) = Inl x"
  shows "StartNewRPCSession e s = (Return [] (Some x), s)"
  using assms by (simp add: StartNewRPCSession_unfold)

lemma StartNewRPCSession_run:
  assumes "url_Parse e (DefaultAPIBaseURL e) = Inr u"
    and "url_Parse e (URL_String u @ rpcSessionPath e) = Inr u'"
    and "transport e (sent s) (DoCall (session_request s u')) = (Some r, None)"
    and "\<not> is_redirect (StatusCode r)"
  shows "fst (StartNewRPCSession e s) =
           (if StatusCode r = 200
            then Return (SDKRPCSessionToken
                           (fst (Decode_startNewRPCSession e (bytes (Response.Body r))
                                   zero_startNewRPCSessionResponse))) None
            else Return [] None)"
    and "closed (snd (StartNewRPCSession e s)) =
           (if StatusCode r = 200 then closed s @ [handle (Response.Body r)] else closed s)"
    and "wire (snd (StartNewRPCSession e s)) = wire s @ [session_request s u']"
  using StartNewRPCSession_after_Do [OF assms(1,2) Do_first_final [OF assms(3,4)]]
  by simp_all

lemma StartNewRPCSession_first_answer_final:
  assumes "url_Parse e (DefaultAPIBaseURL e) = Inr u"
    and "url_Parse e (URL_String u @ rpcSessionPath e) = Inr u'"
    and "transport e (sent s) (DoCall (session_request s u')) = (res, err)"
    and "\<forall>r. res = Some r \<longrightarrow> err = None \<longrightarrow> \<not> is_redirect (StatusCode r)"
  shows "wire (snd (StartNewRPCSession e s)) = wire s @ [session_request s u']"
proof (cases err)
  case (Some x)
  with assms(3) have "transport e (sent s) (DoCall (session_request s u')) = (res, Some x)"
    by simp
  from StartNewRPCSession_after_Do(3) [OF assms(1,2) Do_first_error [OF this]]
  show ?thesis .
next
  case None
  note err = None
  show ?thesis
  proof (cases res)
    case None
    with assms(3) err
    have "transport e (sent s) (DoCall (session_request s u')) = (None, None)" by simp
    from StartNewRPCSession_after_Do(3) [OF assms(1,2) Do_first_nil [OF this]]
    show ?thesis .
  next
    case (Some r)
    with assms(3,4) err
    have t: "transport e (sent s) (DoCall (session_request s u')) = (Some r, None)"
      and nr: "\<not> is_redirect (StatusCode r)" by simp_all
    from StartNewRPCSession_run(3) [OF assms(1,2) t nr] show ?thesis .
  qed
qed

lemma wire_StartNewRPCSession_bound:
  "\<exists>ws. wire (snd (StartNewRPCSession e s)) = wire s @ ws \<and> length ws \<le> 10"
proof (cases "url_Parse e (DefaultAPIBaseURL e)")
  case (Inl x)
  then show ?thesis by (simp add: StartNewRPCSession_unfold)
next
  case (Inr u)
  note p = Inr
  show ?thesis
  proof (cases "url_Parse e (URL_String u @ rpcSessionPath e)")
    case (Inl x)
    from StartNewRPCSession_bad_session_url [OF p Inl] show ?thesis by simp
  next
    case (Inr u')
    obtain res err ws cl where
      d: "Do_from e (sent s) [] (session_request s u') = ((res, err), ws, cl)"
      by (metis prod.exhaust)
    from Do_from_sent [of e "sent s" "[]" "session_request s u'"] d
    have "length ws \<le> 10" by auto
    with StartNewRPCSession_after_Do(3) [OF p Inr d] show ?thesis by simp
  qed
qed

subsection \<open>Runs on the stub platform\<close>

lemmas stub_defs = stub_env_def replies_def fails_def stub_state_def stub_ctx_def stub_Parse_def
  stub_Sprintf_def stub_Decode_readers_def stub_Decode_startNewRPCSession_def
  stub_Decode_getConnectionToken_def stub_Decode_createPaymentIntent_def
  stub_Decode_registerReader_def stub_syntax_error_def

lemma stub_parses:
  "url_Parse (stub_env t) (DefaultAPIBaseURL (stub_env t)) = Inr (ParsedURL ''https://api.stripe.com'')"
  by (simp add: stub_defs)

lemma stub_session_url_parses:
  "url_Parse (stub_env t)
     (URL_String (ParsedURL ''https://api.stripe.com'') @ rpcSessionPath (stub_env t))
     = Inr (ParsedURL ''https://api.stripe.com/v1/terminal/connection_tokens/activate'')"
  by (simp add: stub_defs)

lemma transport_stub: "transport (stub_env t) = t"
  by (simp add: stub_env_def)

lemma sent_stub_state: "sent stub_state = []"
  by (simp add: stub_state_def)

lemma closed_stub_state: "closed stub_state = []"
  by (simp add: stub_state_def)

lemma wire_stub_state: "wire stub_state = []"
  by (simp add: stub_state_def)

lemma next_hop_stub: "next_hop (stub_env t) = stub_next_hop"
  by (simp add: stub_env_def)

lemma replies_stub_state:
  "transport (stub_env (replies status b)) (sent stub_state) c
     = (Some \<lparr>StatusCode = status, Response.Body = \<lparr>handle = 0, bytes = b\<rparr>\<rparr>, None)"
  by (simp add: transport_stub replies_def sent_stub_state)

lemma stub_decodes_two:
  "Decode_readers (stub_env t) two_readers_body zero_readersResponse =
     (zero_readersResponse\<lparr>HasMore := False,
        Data := [reader_with_id ''tmr_1'', reader_with_id ''tmr_2'']\<rparr>, None)"
  by (simp add: stub_env_def stub_Decode_readers_def)

lemma stub_decodes_twins:
  "Decode_readers (stub_env t) twin_readers_body zero_readersResponse =
     (zero_readersResponse\<lparr>HasMore := False,
        Data := [reader_with_id ''tmr_1'', reader_with_id ''tmr_1'']\<rparr>, None)"
  by (simp add: stub_env_def stub_Decode_readers_def two_readers_body_def twin_readers_body_def)

lemma stub_rejects_html:
  "Decode_readers (stub_env t) html_body zero_readersResponse
     = (zero_readersResponse, Some stub_syntax_error)"
  "Decode_startNewRPCSession (stub_env t) html_body zero_startNewRPCSessionResponse
     = (zero_startNewRPCSessionResponse, Some stub_syntax_error)"
  "Decode_getConnectionToken (stub_env t) html_body zero_getConnectionTokenResponse
     = (zero_getConnectionTokenResponse, Some stub_syntax_error)"
  "Decode_createPaymentIntent (stub_env t) html_body zero_createPaymentIntentResponse
     = (zero_createPaymentIntentResponse, Some stub_syntax_error)"
  "Decode_registerReader (stub_env t) html_body zero_registerReaderResponse
     = (zero_registerReaderResponse, Some stub_syntax_error)"
  by (simp_all add: stub_env_def html_body_def stub_Decode_readers_def two_readers_body_def
        twin_readers_body_def stub_Decode_startNewRPCSession_def
        stub_Decode_getConnectionToken_def stub_Decode_createPaymentIntent_def
        stub_Decode_registerReader_def)

lemma sent_stub_session:
  "sent (snd (StartNewRPCSession (stub_env t) stub_state))
     = [DoCall (session_request stub_state
                  (ParsedURL ''https://api.stripe.com/v1/terminal/connection_tokens/activate''))]"
  by (simp add: sent_StartNewRPCSession stub_defs)

lemma stub_amount: "QueryEscape (Itoa (Amount (tsCtx stub_state))) = ''1999''"
  unfolding stub_state_def stub_ctx_def by code_simp

lemma stub_currency: "QueryEscape (Currency (tsCtx stub_state)) = ''usd''"
  unfolding stub_state_def stub_ctx_def by code_simp

subsection \<open>Answers other than 200\<close>

text \<open>
  Claim C1 asks for a non-nil error and an empty result on every answer whose status is not
  200. The branch \<^verbatim>\<open>if err != nil || res.StatusCode != http.StatusOK { return "", err }\<close>
  returns \<open>err\<close>, which is nil when only the status test fired. On the stub platform
  answering 404 to every call, \<^verbatim>\<open>DiscoverReaders\<close>, \<^verbatim>\<open>RegisterReader\<close>,
  \<^verbatim>\<open>StartNewRPCSession\<close>, \<^verbatim>\<open>GetNewConnectionToken\<close> and \<^verbatim>\<open>CreatePaymentIntent\<close> return
  the empty value together with a nil error.
\<close>

theorem C1_nil_error_on_404:
  "fst (DiscoverReaders (stub_env (replies 404 not_found_body)) stub_state) = Return [] None \<and>
   fst (RegisterReader (stub_env (replies 404 not_found_body)) ''simulated-wpe'' stub_state)
     = Return [] None \<and>
   fst (StartNewRPCSession (stub_env (replies 404 not_found_body)) stub_state) = Return [] None \<and>
   fst (GetNewConnectionToken (stub_env (replies 404 not_found_body)) stub_state) = Return [] None \<and>
   fst (CreatePaymentIntent (stub_env (replies 404 not_found_body)) stub_state) = Return [] None"
proof (intro conjI)
  note p = stub_parses [of "replies 404 not_found_body"]
  note q = stub_session_url_parses [of "replies 404 not_found_body"]
  note t = replies_stub_state [of 404 not_found_body]
  have nr: "\<not> is_redirect
               (StatusCode \<lparr>StatusCode = 404,
                             Response.Body = \<lparr>handle = 0, bytes = not_found_body\<rparr>\<rparr>)"
    by (simp add: is_redirect_def)
  show "fst (DiscoverReaders (stub_env (replies 404 not_found_body)) stub_state) = Return [] None"
    by (simp add: DiscoverReaders_run(1) [OF p t])
  show "fst (RegisterReader (stub_env (replies 404 not_found_body)) ''simulated-wpe'' stub_state)
     = Return [] None"
    by (simp add: RegisterReader_run(1) [OF p t])
  show "fst (StartNewRPCSession (stub_env (replies 404 not_found_body)) stub_state) = Return [] None"
    by (simp add: StartNewRPCSession_run(1) [OF p q t nr])
  show "fst (GetNewConnectionToken (stub_env (replies 404 not_found_body)) stub_state)
     = Return [] None"
    by (simp add: GetNewConnectionToken_run(1) [OF p t])
  show "fst (CreatePaymentIntent (stub_env (replies 404 not_found_body)) stub_state) = Return [] None"
    by (simp add: CreatePaymentIntent_run(1) [OF p t])
qed

subsection \<open>Which credential goes out\<close>




subsection \<open>The form of a payment intent\<close>

lemma sort_payment_fields:
  "sort_key fst (payment_fields c) =
     [(''amount'', [Itoa (Amount c)]),
      (''capture_method'', [''manual'']),
      (''currency'', [Currency c]),
      (''description'', [''Stripe CLI Test Payment'']),
      (''payment_method_types[]'', [''card_present''])]"
  by simp

lemma escapes:
  "QueryEscape ''amount'' = ''amount''"
  "QueryEscape ''capture_method'' = ''capture_method''"
  "QueryEscape ''manual'' = ''manual''"
  "QueryEscape ''currency'' = ''currency''"
  "QueryEscape ''description'' = ''description''"
  "QueryEscape ''Stripe CLI Test Payment'' = ''Stripe+CLI+Test+Payment''"
  "QueryEscape ''payment_method_types[]'' = ''payment_method_types%5B%5D''"
  "QueryEscape ''card_present'' = ''card_present''"
  by code_simp+

lemma Encode_payment_fields:
  "Encode (payment_fields c) =
     ''amount='' @ QueryEscape (Itoa (Amount c)) @ ''&capture_method=manual&currency='' @
     QueryEscape (Currency c) @
     ''&description=Stripe+CLI+Test+Payment&payment_method_types%5B%5D=card_present''"
  unfolding Encode_def sort_payment_fields
  by (simp add: escapes)

text \<open>
  Claim C3. For every context, the call by which \<^verbatim>\<open>CreatePaymentIntent\<close> reaches the
  transport (it makes none when the base URL does not parse) is a POST whose parameters are
  the encoding of exactly five fields: \<^verbatim>\<open>amount\<close>, the decimal text of \<open>Amount\<close>;
  \<^verbatim>\<open>currency\<close>, the \<open>Currency\<close> of the context; \<^verbatim>\<open>payment_method_types[]\<close>, always
  \<^verbatim>\<open>card_present\<close>; \<^verbatim>\<open>capture_method\<close>, always \<^verbatim>\<open>manual\<close>; and \<^verbatim>\<open>description\<close>, the fixed
  text. The encoded body is spelled out in the second part.
\<close>

theorem C3_payment_intent_form:
  "sent (snd (CreatePaymentIntent e s)) =
     (case url_Parse e (DefaultAPIBaseURL e) of
        Inl err \<Rightarrow> sent s
      | Inr u \<Rightarrow>
          sent s @ [ClientCall (client_of s u) ''POST'' (stripeCreatePaymentIntentPath e)
                      (Encode (payment_fields (tsCtx s)))]) \<and>
   Encode (payment_fields (tsCtx s)) =
     ''amount='' @ QueryEscape (Itoa (Amount (tsCtx s))) @ ''&capture_method=manual&currency='' @
     QueryEscape (Currency (tsCtx s)) @
     ''&description=Stripe+CLI+Test+Payment&payment_method_types%5B%5D=card_present''"
  using sent_CreatePaymentIntent [of e s] Encode_payment_fields [of "tsCtx s"] by (rule conjI)

text \<open>
  For the stub context, 1999 in \<^verbatim>\<open>usd\<close>, the call of claim C3 carries the body shown.
\<close>

theorem C3_payment_intent_form_witness:
  "sent (snd (CreatePaymentIntent (stub_env fails) stub_state)) =
     [ClientCall
        \<lparr>BaseURL = Some (ParsedURL ''https://api.stripe.com''), Client.APIKey = ''sk_test_123'',
         Verbose = False\<rparr>
        ''POST'' ''/v1/payment_intents''
        ''amount=1999&capture_method=manual&currency=usd&description=Stripe+CLI+Test+Payment&payment_method_types%5B%5D=card_present'']"
proof -
  note c3 = C3_payment_intent_form [of "stub_env fails" stub_state]
  have body: "Encode (payment_fields (tsCtx stub_state)) =
    ''amount=1999&capture_method=manual&currency=usd&description=Stripe+CLI+Test+Payment&payment_method_types%5B%5D=card_present''"
    using c3 [THEN conjunct2] by (simp add: stub_amount stub_currency)
  have key: "TerminalSessionContext.APIKey (tsCtx stub_state) = ''sk_test_123''"
    by (simp add: stub_state_def stub_ctx_def)
  have path: "stripeCreatePaymentIntentPath (stub_env fails) = ''/v1/payment_intents''"
    by (simp add: stub_env_def)
  from c3 [THEN conjunct1] show ?thesis
    by (simp only: stub_parses sum.case body key path sent_stub_state append_Nil)
qed

subsection \<open>The error of a capture\<close>

text \<open>
  Claim C4. \<^verbatim>\<open>CapturePaymentIntent\<close> returns a nil error exactly when the base URL parses
  and the transport answers its call with a response of status 200 and no error; and
  whenever the transport answers the call with an error, or with a response whose status is
  not 200, whatever its body, the error returned is the sentinel
  \<^verbatim>\<open>ErrCapturePaymentIntentFailed\<close>, which carries no cause.
\<close>

theorem C4_capture_sentinel:
  "(fst (CapturePaymentIntent e s) = Return () None \<longleftrightarrow>
      (\<exists>u r. url_Parse e (DefaultAPIBaseURL e) = Inr u \<and>
             transport e (sent s) (capture_call e s u) = (Some r, None) \<and> StatusCode r = 200)) \<and>
   (\<forall>u res err.
      url_Parse e (DefaultAPIBaseURL e) = Inr u \<longrightarrow>
      transport e (sent s) (capture_call e s u) = (res, err) \<longrightarrow>
      (err \<noteq> None \<or> (\<exists>r. res = Some r \<and> StatusCode r \<noteq> 200)) \<longrightarrow>
      fst (CapturePaymentIntent e s) = Return () (Some ErrCapturePaymentIntentFailed))"
proof (intro conjI allI impI)
  show "fst (CapturePaymentIntent e s) = Return () None \<longleftrightarrow>
      (\<exists>u r. url_Parse e (DefaultAPIBaseURL e) = Inr u \<and>
             transport e (sent s) (capture_call e s u) = (Some r, None) \<and> StatusCode r = 200)"
  proof (cases "url_Parse e (DefaultAPIBaseURL e)")
    case (Inl x)
    then show ?thesis by (simp add: parse_failure(5))
  next
    case (Inr u)
    obtain res err where t: "transport e (sent s) (capture_call e s u) = (res, err)"
      by (cases "transport e (sent s) (capture_call e s u)")
    show ?thesis
      using Inr t by (simp add: CapturePaymentIntent_run(1) [OF Inr t] split: option.splits)
  qed
next
  fix u res err
  assume p: "url_Parse e (DefaultAPIBaseURL e) = Inr u"
    and t: "transport e (sent s) (capture_call e s u) = (res, err)"
    and f: "err \<noteq> None \<or> (\<exists>r. res = Some r \<and> StatusCode r \<noteq> 200)"
  from f show "fst (CapturePaymentIntent e s) = Return () (Some ErrCapturePaymentIntentFailed)"
    by (auto simp add: CapturePaymentIntent_run(1) [OF p t] split: option.splits)
qed

text \<open>
  Claim C4 on the stub platform: a 402 answer and a refused connection both give the
  sentinel, a 200 answer gives nil.
\<close>

theorem C4_capture_sentinel_witness:
  "fst (CapturePaymentIntent (stub_env (replies 402 not_found_body)) stub_state)
     = Return () (Some ErrCapturePaymentIntentFailed) \<and>
   fst (CapturePaymentIntent (stub_env fails) stub_state)
     = Return () (Some ErrCapturePaymentIntentFailed) \<and>
   fst (CapturePaymentIntent (stub_env (replies 200 [])) stub_state) = Return () None"
proof -
  let ?u = "ParsedURL ''https://api.stripe.com''"
  have declined: "fst (CapturePaymentIntent (stub_env (replies 402 not_found_body)) stub_state)
     = Return () (Some ErrCapturePaymentIntentFailed)"
  proof -
    let ?e = "stub_env (replies 402 not_found_body)"
    let ?r = "\<lparr>StatusCode = 402, Response.Body = \<lparr>handle = 0, bytes = not_found_body\<rparr>\<rparr>"
    have t: "transport ?e (sent stub_state) (capture_call ?e stub_state ?u) = (Some ?r, None)"
      by (simp add: transport_stub replies_def sent_stub_state)
    have "None \<noteq> (None :: error option) \<or> (\<exists>r. Some ?r = Some r \<and> StatusCode r \<noteq> 200)"
      by simp
    with C4_capture_sentinel [of ?e stub_state] stub_parses [of "replies 402 not_found_body"] t
    show ?thesis by blast
  qed
  have refused: "fst (CapturePaymentIntent (stub_env fails) stub_state)
     = Return () (Some ErrCapturePaymentIntentFailed)"
  proof -
    let ?e = "stub_env fails"
    let ?x = "LibraryError ''dial tcp: connection refused''"
    have t: "transport ?e (sent stub_state) (capture_call ?e stub_state ?u) = (None, Some ?x)"
      by (simp add: transport_stub fails_def)
    have "Some ?x \<noteq> None \<or> (\<exists>r. (None :: Response option) = Some r \<and> StatusCode r \<noteq> 200)"
      by simp
    with C4_capture_sentinel [of ?e stub_state] stub_parses [of fails] t
    show ?thesis by blast
  qed
  have captured: "fst (CapturePaymentIntent (stub_env (replies 200 [])) stub_state) = Return () None"
  proof -
    let ?e = "stub_env (replies 200 [])"
    let ?r = "\<lparr>StatusCode = 200, Response.Body = \<lparr>handle = 0, bytes = []\<rparr>\<rparr>"
    have t: "transport ?e (sent stub_state) (capture_call ?e stub_state ?u) = (Some ?r, None)"
      by (simp add: transport_stub replies_def sent_stub_state)
    have "StatusCode ?r = 200" by simp
    with C4_capture_sentinel [of ?e stub_state] stub_parses [of "replies 200 []"] t
    show ?thesis by blast
  qed
  from declined refused captured show ?thesis by simp
qed

subsection \<open>Closing the body\<close>

text \<open>
  Claim C5 asks that a body acquired from the transport is closed exactly once on every
  path. The close is deferred (or, in \<^verbatim>\<open>CapturePaymentIntent\<close>, called) only after the
  status test, so on the stub platform answering 404 the transport delivers a body with
  handle 0 and none of the six operations closes it.
\<close>

theorem C5_body_left_open_on_404:
  "transport (stub_env (replies 404 not_found_body)) (sent stub_state) c
     = (Some \<lparr>StatusCode = 404, Response.Body = \<lparr>handle = 0, bytes = not_found_body\<rparr>\<rparr>, None) \<and>
   closed (snd (DiscoverReaders (stub_env (replies 404 not_found_body)) stub_state)) = [] \<and>
   closed (snd (RegisterReader (stub_env (replies 404 not_found_body)) ''simulated-wpe'' stub_state))
     = [] \<and>
   closed (snd (StartNewRPCSession (stub_env (replies 404 not_found_body)) stub_state)) = [] \<and>
   closed (snd (GetNewConnectionToken (stub_env (replies 404 not_found_body)) stub_state)) = [] \<and>
   closed (snd (CreatePaymentIntent (stub_env (replies 404 not_found_body)) stub_state)) = [] \<and>
   closed (snd (CapturePaymentIntent (stub_env (replies 404 not_found_body)) stub_state)) = []"
proof (intro conjI)
  note p = stub_parses [of "replies 404 not_found_body"]
  note q = stub_session_url_parses [of "replies 404 not_found_body"]
  note t = replies_stub_state [of 404 not_found_body]
  have nr: "\<not> is_redirect
               (StatusCode \<lparr>StatusCode = 404,
                             Response.Body = \<lparr>handle = 0, bytes = not_found_body\<rparr>\<rparr>)"
    by (simp add: is_redirect_def)
  show "transport (stub_env (replies 404 not_found_body)) (sent stub_state) c
     = (Some \<lparr>StatusCode = 404, Response.Body = \<lparr>handle = 0, bytes = not_found_body\<rparr>\<rparr>, None)"
    by (rule t)
  show "closed (snd (DiscoverReaders (stub_env (replies 404 not_found_body)) stub_state)) = []"
    by (simp add: DiscoverReaders_run(2) [OF p t] closed_stub_state)
  show "closed (snd (RegisterReader (stub_env (replies 404 not_found_body)) ''simulated-wpe''
                       stub_state)) = []"
    by (simp add: RegisterReader_run(2) [OF p t] closed_stub_state)
  show "closed (snd (StartNewRPCSession (stub_env (replies 404 not_found_body)) stub_state)) = []"
    by (simp add: StartNewRPCSession_run(2) [OF p q t nr] closed_stub_state)
  show "closed (snd (GetNewConnectionToken (stub_env (replies 404 not_found_body)) stub_state)) = []"
    by (simp add: GetNewConnectionToken_run(2) [OF p t] closed_stub_state)
  show "closed (snd (CreatePaymentIntent (stub_env (replies 404 not_found_body)) stub_state)) = []"
    by (simp add: CreatePaymentIntent_run(2) [OF p t] closed_stub_state)
  show "closed (snd (CapturePaymentIntent (stub_env (replies 404 not_found_body)) stub_state)) = []"
    by (simp add: CapturePaymentIntent_run(2) [OF p t] closed_stub_state)
qed

subsection \<open>The readers returned\<close>

text \<open>
  Claim C6, amended. When the base URL parses and the transport answers the call of
  \<^verbatim>\<open>DiscoverReaders\<close> with status 200 and no error, the operation returns exactly the
  \<open>Data\<close> list that the decoder leaves in \<open>result\<close>, in the same order, with a nil error;
  so the IDs returned are pairwise distinct whenever those of the decoded list are. The
  operation itself neither checks for duplicates nor removes them.
\<close>

theorem C6_readers_as_decoded:
  assumes "url_Parse e (DefaultAPIBaseURL e) = Inr u"
    and "transport e (sent s) (readers_call e s u) = (Some r, None)"
    and "StatusCode r = 200"
  shows "fst (DiscoverReaders e s) =
           Return (Data (fst (Decode_readers e (bytes (Response.Body r)) zero_readersResponse))) None \<and>
         (distinct (map Reader.ID
             (Data (fst (Decode_readers e (bytes (Response.Body r)) zero_readersResponse)))) \<longrightarrow>
          (\<exists>rs. fst (DiscoverReaders e s) = Return rs None \<and> distinct (map Reader.ID rs)))"
  using assms(3) by (simp add: DiscoverReaders_run(1) [OF assms(1) assms(2)])

text \<open>
  Claim C6 on the stub platform answering with two readers: they come back in the order of
  the body.
\<close>

theorem C6_readers_as_decoded_witness:
  "fst (DiscoverReaders (stub_env (replies 200 two_readers_body)) stub_state) =
     Return [reader_with_id ''tmr_1'', reader_with_id ''tmr_2''] None"
proof -
  let ?e = "stub_env (replies 200 two_readers_body)"
  let ?r = "\<lparr>StatusCode = 200, Response.Body = \<lparr>handle = 0, bytes = two_readers_body\<rparr>\<rparr>"
  have t: "transport ?e (sent stub_state)
             (readers_call ?e stub_state (ParsedURL ''https://api.stripe.com'')) = (Some ?r, None)"
    by (rule replies_stub_state)
  have ok: "StatusCode ?r = 200" by simp
  from C6_readers_as_decoded [OF stub_parses t ok, THEN conjunct1]
  show ?thesis by (simp add: stub_decodes_two)
qed

text \<open>
  Claim C6 as stated fails: when the body lists the reader \<^verbatim>\<open>tmr_1\<close> twice, a successful
  call returns both entries, and their IDs are not pairwise distinct.
\<close>

theorem C6_duplicate_ids_counterexample:
  "fst (DiscoverReaders (stub_env (replies 200 twin_readers_body)) stub_state) =
     Return [reader_with_id ''tmr_1'', reader_with_id ''tmr_1''] None \<and>
   \<not> distinct (map Reader.ID [reader_with_id ''tmr_1'', reader_with_id ''tmr_1''])"
proof -
  let ?e = "stub_env (replies 200 twin_readers_body)"
  let ?r = "\<lparr>StatusCode = 200, Response.Body = \<lparr>handle = 0, bytes = twin_readers_body\<rparr>\<rparr>"
  have t: "transport ?e (sent stub_state)
             (readers_call ?e stub_state (ParsedURL ''https://api.stripe.com'')) = (Some ?r, None)"
    by (rule replies_stub_state)
  have "fst (DiscoverReaders ?e stub_state) =
     Return [reader_with_id ''tmr_1'', reader_with_id ''tmr_1''] None"
    by (simp add: DiscoverReaders_run(1) [OF stub_parses t] stub_decodes_twins)
  then show ?thesis by simp
qed

subsection \<open>One call per invocation\<close>

lemma stub_follows_once:
  "Do_from (stub_env (redirects_once b)) [] [] rq =
     ((Some \<lparr>StatusCode = 200, Response.Body = \<lparr>handle = 1, bytes = b\<rparr>\<rparr>, None),
      [rq, rq\<lparr>Request.URL := ParsedURL stub_location,
              Header := Values_Set ''Referer'' (URL_String (Request.URL rq)) (Header rq)\<rparr>],
      [0])"
proof -
  let ?e = "stub_env (redirects_once b)"
  let ?next = "rq\<lparr>Request.URL := ParsedURL stub_location,
                   Header := Values_Set ''Referer'' (URL_String (Request.URL rq)) (Header rq)\<rparr>"
  let ?ok = "\<lparr>StatusCode = 200, Response.Body = \<lparr>handle = 1, bytes = b\<rparr>\<rparr>"
  have second: "Do_from ?e [] [rq] ?next = ((Some ?ok, None), [rq, ?next], [])"
    using Do_from_final [of ?e "[]" "[rq]" ?next ?ok]
    by (simp add: transport_stub redirects_once_def is_redirect_def)
  show ?thesis
    using second
    by (simp add: Do_from.simps [of ?e "[]" "[]" rq] transport_stub next_hop_stub
          redirects_once_def is_redirect_def stub_next_hop_def)
qed

text \<open>
  Claim C7, amended. Each of the six operations makes at most one call of its transport
  entry point (\<^verbatim>\<open>PerformRequest\<close>, or \<^verbatim>\<open>http.Client.Do\<close> in \<^verbatim>\<open>StartNewRPCSession\<close>), whatever
  the answer, so a failed call is not made again; the call of \<^verbatim>\<open>DiscoverReaders\<close>, when it
  makes one, is a GET; and \<^verbatim>\<open>DiscoverReaders\<close> behaves the same when the \<open>HasMore\<close> field
  that the decoder leaves in \<open>result\<close> is overwritten with any value \<open>h\<close>, that is, it
  ignores the field. The one \<^verbatim>\<open>Do\<close> of \<^verbatim>\<open>StartNewRPCSession\<close> puts at most ten requests on
  the wire, and exactly one, the request the operation built, unless the first answer is a
  redirect (301, 302, 303, 307 or 308) that came without an error.
\<close>

theorem C7_single_call:
  "(sent (snd (DiscoverReaders e s)) = sent s \<or>
      (\<exists>c p b. sent (snd (DiscoverReaders e s)) = sent s @ [ClientCall c ''GET'' p b])) \<and>
   (sent (snd (RegisterReader e regcode s)) = sent s \<or>
      (\<exists>c. sent (snd (RegisterReader e regcode s)) = sent s @ [c])) \<and>
   (sent (snd (StartNewRPCSession e s)) = sent s \<or>
      (\<exists>c. sent (snd (StartNewRPCSession e s)) = sent s @ [c])) \<and>
   (sent (snd (GetNewConnectionToken e s)) = sent s \<or>
      (\<exists>c. sent (snd (GetNewConnectionToken e s)) = sent s @ [c])) \<and>
   (sent (snd (CreatePaymentIntent e s)) = sent s \<or>
      (\<exists>c. sent (snd (CreatePaymentIntent e s)) = sent s @ [c])) \<and>
   (sent (snd (CapturePaymentIntent e s)) = sent s \<or>
      (\<exists>c. sent (snd (CapturePaymentIntent e s)) = sent s @ [c])) \<and>
   DiscoverReaders
     (e\<lparr>Decode_readers :=
          \<lambda>b r0. (let (r, x) = Decode_readers e b r0 in (r\<lparr>HasMore := h\<rparr>, x))\<rparr>) s
     = DiscoverReaders e s \<and>
   (\<exists>ws. wire (snd (StartNewRPCSession e s)) = wire s @ ws \<and> length ws \<le> 10) \<and>
   (\<forall>u u' res err.
      url_Parse e (DefaultAPIBaseURL e) = Inr u \<longrightarrow>
      url_Parse e (URL_String u @ rpcSessionPath e) = Inr u' \<longrightarrow>
      transport e (sent s) (DoCall (session_request s u')) = (res, err) \<longrightarrow>
      (\<forall>r. res = Some r \<longrightarrow> err = None \<longrightarrow> \<not> is_redirect (StatusCode r)) \<longrightarrow>
      wire (snd (StartNewRPCSession e s)) = wire s @ [session_request s u'])"
proof -
  have discover: "sent (snd (DiscoverReaders e s)) = sent s \<or>
      (\<exists>c p b. sent (snd (DiscoverReaders e s)) = sent s @ [ClientCall c ''GET'' p b])"
    by (simp add: sent_DiscoverReaders split: sum.splits)
  have register: "sent (snd (RegisterReader e regcode s)) = sent s \<or>
      (\<exists>c. sent (snd (RegisterReader e regcode s)) = sent s @ [c])"
    by (simp add: sent_RegisterReader split: sum.splits)
  have start: "sent (snd (StartNewRPCSession e s)) = sent s \<or>
      (\<exists>c. sent (snd (StartNewRPCSession e s)) = sent s @ [c])"
    by (simp add: sent_StartNewRPCSession split: sum.splits)
  have token: "sent (snd (GetNewConnectionToken e s)) = sent s \<or>
      (\<exists>c. sent (snd (GetNewConnectionToken e s)) = sent s @ [c])"
    by (simp add: sent_GetNewConnectionToken split: sum.splits)
  have create: "sent (snd (CreatePaymentIntent e s)) = sent s \<or>
      (\<exists>c. sent (snd (CreatePaymentIntent e s)) = sent s @ [c])"
    by (simp add: sent_CreatePaymentIntent split: sum.splits)
  have capture: "sent (snd (CapturePaymentIntent e s)) = sent s \<or>
      (\<exists>c. sent (snd (CapturePaymentIntent e s)) = sent s @ [c])"
    by (simp add: sent_CapturePaymentIntent split: sum.splits)
  have has_more: "DiscoverReaders
     (e\<lparr>Decode_readers :=
          \<lambda>b r0. (let (r, x) = Decode_readers e b r0 in (r\<lparr>HasMore := h\<rparr>, x))\<rparr>) s
     = DiscoverReaders e s"
    by (simp add: DiscoverReaders_def step_defs split: sum.splits option.splits prod.splits)
  have first_only: "\<forall>u u' res err.
      url_Parse e (DefaultAPIBaseURL e) = Inr u \<longrightarrow>
      url_Parse e (URL_String u @ rpcSessionPath e) = Inr u' \<longrightarrow>
      transport e (sent s) (DoCall (session_request s u')) = (res, err) \<longrightarrow>
      (\<forall>r. res = Some r \<longrightarrow> err = None \<longrightarrow> \<not> is_redirect (StatusCode r)) \<longrightarrow>
      wire (snd (StartNewRPCSession e s)) = wire s @ [session_request s u']"
    using StartNewRPCSession_first_answer_final [where e = e and s = s] by blast
  show ?thesis
    by (intro conjI discover register start token create capture has_more
          wire_StartNewRPCSession_bound first_only)
qed

text \<open>
  Claim C7, amended, on the stub platform answering 200 at once: the one request of
  \<^verbatim>\<open>StartNewRPCSession\<close> is all that goes on the wire.
\<close>

theorem C7_single_call_witness:
  "wire (snd (StartNewRPCSession (stub_env (replies 200 html_body)) stub_state)) =
     [session_request stub_state
        (ParsedURL ''https://api.stripe.com/v1/terminal/connection_tokens/activate'')]"
proof -
  let ?e = "stub_env (replies 200 html_body)"
  let ?u' = "ParsedURL ''https://api.stripe.com/v1/terminal/connection_tokens/activate''"
  let ?r = "\<lparr>StatusCode = 200, Response.Body = \<lparr>handle = 0, bytes = html_body\<rparr>\<rparr>"
  note p = stub_parses [of "replies 200 html_body"]
  note q = stub_session_url_parses [of "replies 200 html_body"]
  have t: "transport ?e (sent stub_state) (DoCall (session_request stub_state ?u')) = (Some ?r, None)"
    by (rule replies_stub_state)
  have nr: "\<forall>r. Some ?r = Some r \<longrightarrow> (None :: error option) = None \<longrightarrow>
              \<not> is_redirect (StatusCode r)"
    by (simp add: is_redirect_def)
  from C7_single_call [of ?e stub_state] p q t nr
  have "wire (snd (StartNewRPCSession ?e stub_state)) =
          wire stub_state @ [session_request stub_state ?u']"
    by blast
  then show ?thesis by (simp add: wire_stub_state)
qed

text \<open>
  Claim C7 as stated fails: when the stub platform answers the first request with 307 and
  the follow-up with 200, one call of \<^verbatim>\<open>StartNewRPCSession\<close> makes one call of \<^verbatim>\<open>Do\<close>,
  returns the session token with a nil error, and has put two POST requests on the wire.
\<close>

theorem C7_redirect_counterexample:
  "fst (StartNewRPCSession (stub_env (redirects_once rpc_session_body)) stub_state)
     = Return ''rpc_1'' None \<and>
   length (sent (snd (StartNewRPCSession (stub_env (redirects_once rpc_session_body)) stub_state)))
     = 1 \<and>
   map Method (wire (snd (StartNewRPCSession (stub_env (redirects_once rpc_session_body))
                            stub_state)))
     = [''POST'', ''POST'']"
proof -
  let ?e = "stub_env (redirects_once rpc_session_body)"
  let ?u' = "ParsedURL ''https://api.stripe.com/v1/terminal/connection_tokens/activate''"
  let ?rq = "session_request stub_state ?u'"
  note p = stub_parses [of "redirects_once rpc_session_body"]
  note q = stub_session_url_parses [of "redirects_once rpc_session_body"]
  have d: "Do_from ?e (sent stub_state) [] ?rq =
     ((Some \<lparr>StatusCode = 200, Response.Body = \<lparr>handle = 1, bytes = rpc_session_body\<rparr>\<rparr>, None),
      [?rq, ?rq\<lparr>Request.URL := ParsedURL stub_location,
                 Header := Values_Set ''Referer'' (URL_String (Request.URL ?rq)) (Header ?rq)\<rparr>],
      [0])"
    unfolding sent_stub_state by (rule stub_follows_once)
  have token: "SDKRPCSessionToken
                 (fst (Decode_startNewRPCSession ?e rpc_session_body
                         zero_startNewRPCSessionResponse)) = ''rpc_1''"
    by (simp add: stub_env_def stub_Decode_startNewRPCSession_def rpc_session_body_def)
  have "fst (StartNewRPCSession ?e stub_state) = Return ''rpc_1'' None"
    using StartNewRPCSession_after_Do(1) [OF p q d] token by simp
  moreover have "length (sent (snd (StartNewRPCSession ?e stub_state))) = 1"
    by (simp add: sent_stub_session)
  moreover have "map Method (wire (snd (StartNewRPCSession ?e stub_state))) = [''POST'', ''POST'']"
    using StartNewRPCSession_after_Do(3) [OF p q d] by (simp add: wire_stub_state)
  ultimately show ?thesis by (intro conjI)
qed

subsection \<open>Decode errors\<close>

text \<open>
  Claim C8. In each of the five operations that decode a response, when the answer has
  status 200 and \<^verbatim>\<open>Decode\<close> returns an error, the error is dropped: the operation returns
  the field of \<open>result\<close> as the decoder left it, with a nil error; in particular when the
  decoder left \<open>result\<close> untouched, as it does on malformed JSON, the operation returns the
  zero value with a nil error.
\<close>

theorem C8_decode_error_discarded:
  assumes "url_Parse e (DefaultAPIBaseURL e) = Inr u"
    and "StatusCode r = 200"
  shows "(transport e (sent s) (readers_call e s u) = (Some r, None) \<longrightarrow>
          Decode_readers e (bytes (Response.Body r)) zero_readersResponse = (result1, Some x) \<longrightarrow>
          fst (DiscoverReaders e s) = Return (Data result1) None \<and>
          (result1 = zero_readersResponse \<longrightarrow> fst (DiscoverReaders e s) = Return [] None)) \<and>
         (url_Parse e (URL_String u @ rpcSessionPath e) = Inr u' \<longrightarrow>
          transport e (sent s) (DoCall (session_request s u')) = (Some r, None) \<longrightarrow>
          Decode_startNewRPCSession e (bytes (Response.Body r)) zero_startNewRPCSessionResponse
            = (result2, Some x) \<longrightarrow>
          fst (StartNewRPCSession e s) = Return (SDKRPCSessionToken result2) None \<and>
          (result2 = zero_startNewRPCSessionResponse \<longrightarrow>
             fst (StartNewRPCSession e s) = Return [] None)) \<and>
         (transport e (sent s) (token_call e s u) = (Some r, None) \<longrightarrow>
          Decode_getConnectionToken e (bytes (Response.Body r)) zero_getConnectionTokenResponse
            = (result3, Some x) \<longrightarrow>
          fst (GetNewConnectionToken e s) = Return (Secret result3) None \<and>
          (result3 = zero_getConnectionTokenResponse \<longrightarrow>
             fst (GetNewConnectionToken e s) = Return [] None)) \<and>
         (transport e (sent s) (create_call e s u) = (Some r, None) \<longrightarrow>
          Decode_createPaymentIntent e (bytes (Response.Body r)) zero_createPaymentIntentResponse
            = (result4, Some x) \<longrightarrow>
          fst (CreatePaymentIntent e s) = Return (createPaymentIntentResponse.ID result4) None \<and>
          (result4 = zero_createPaymentIntentResponse \<longrightarrow>
             fst (CreatePaymentIntent e s) = Return [] None)) \<and>
         (transport e (sent s) (register_call e regcode s u) = (Some r, None) \<longrightarrow>
          Decode_registerReader e (bytes (Response.Body r)) zero_registerReaderResponse
            = (result5, Some x) \<longrightarrow>
          fst (RegisterReader e regcode s) = Return (registerReaderResponse.IPAddress result5) None \<and>
          (result5 = zero_registerReaderResponse \<longrightarrow>
             fst (RegisterReader e regcode s) = Return [] None))"
proof (intro conjI impI)
  note p = assms(1) and ok = assms(2)
  {
    assume t: "transport e (sent s) (readers_call e s u) = (Some r, None)"
      and d: "Decode_readers e (bytes (Response.Body r)) zero_readersResponse = (result1, Some x)"
    show 1: "fst (DiscoverReaders e s) = Return (Data result1) None"
      using ok d by (simp add: DiscoverReaders_run(1) [OF p t])
    assume "result1 = zero_readersResponse"
    with 1 show "fst (DiscoverReaders e s) = Return [] None"
      by (simp add: zero_readersResponse_def)
  }
  {
    assume q: "url_Parse e (URL_String u @ rpcSessionPath e) = Inr u'"
      and t: "transport e (sent s) (DoCall (session_request s u')) = (Some r, None)"
      and d: "Decode_startNewRPCSession e (bytes (Response.Body r)) zero_startNewRPCSessionResponse
                = (result2, Some x)"
    have nr: "\<not> is_redirect (StatusCode r)"
      using ok by (simp add: is_redirect_def)
    show 2: "fst (StartNewRPCSession e s) = Return (SDKRPCSessionToken result2) None"
      using ok d by (simp add: StartNewRPCSession_run(1) [OF p q t nr])
    assume "result2 = zero_startNewRPCSessionResponse"
    with 2 show "fst (StartNewRPCSession e s) = Return [] None"
      by (simp add: zero_startNewRPCSessionResponse_def)
  }
  {
    assume t: "transport e (sent s) (token_call e s u) = (Some r, None)"
      and d: "Decode_getConnectionToken e (bytes (Response.Body r)) zero_getConnectionTokenResponse
                = (result3, Some x)"
    show 3: "fst (GetNewConnectionToken e s) = Return (Secret result3) None"
      using ok d by (simp add: GetNewConnectionToken_run(1) [OF p t])
    assume "result3 = zero_getConnectionTokenResponse"
    with 3 show "fst (GetNewConnectionToken e s) = Return [] None"
      by (simp add: zero_getConnectionTokenResponse_def)
  }
  {
    assume t: "transport e (sent s) (create_call e s u) = (Some r, None)"
      and d: "Decode_createPaymentIntent e (bytes (Response.Body r)) zero_createPaymentIntentResponse
                = (result4, Some x)"
    show 4: "fst (CreatePaymentIntent e s) = Return (createPaymentIntentResponse.ID result4) None"
      using ok d by (simp add: CreatePaymentIntent_run(1) [OF p t])
    assume "result4 = zero_createPaymentIntentResponse"
    with 4 show "fst (CreatePaymentIntent e s) = Return [] None"
      by (simp add: zero_createPaymentIntentResponse_def)
  }
  {
    assume t: "transport e (sent s) (register_call e regcode s u) = (Some r, None)"
      and d: "Decode_registerReader e (bytes (Response.Body r)) zero_registerReaderResponse
                = (result5, Some x)"
    show 5: "fst (RegisterReader e regcode s) = Return (registerReaderResponse.IPAddress result5) None"
      using ok d by (simp add: RegisterReader_run(1) [OF p t])
    assume "result5 = zero_registerReaderResponse"
    with 5 show "fst (RegisterReader e regcode s) = Return [] None"
      by (simp add: zero_registerReaderResponse_def)
  }
qed

text \<open>
  Claim C8 on the stub platform answering 200 with an HTML page: each of the five
  operations returns the empty value and a nil error.
\<close>

theorem C8_decode_error_discarded_witness:
  "fst (DiscoverReaders (stub_env (replies 200 html_body)) stub_state) = Return [] None \<and>
   fst (StartNewRPCSession (stub_env (replies 200 html_body)) stub_state) = Return [] None \<and>
   fst (GetNewConnectionToken (stub_env (replies 200 html_body)) stub_state) = Return [] None \<and>
   fst (CreatePaymentIntent (stub_env (replies 200 html_body)) stub_state) = Return [] None \<and>
   fst (RegisterReader (stub_env (replies 200 html_body)) ''simulated-wpe'' stub_state)
     = Return [] None"
proof -
  let ?e = "stub_env (replies 200 html_body)"
  let ?r = "\<lparr>StatusCode = 200, Response.Body = \<lparr>handle = 0, bytes = html_body\<rparr>\<rparr>"
  have ok: "StatusCode ?r = 200" by simp
  note t = replies_stub_state [of 200 html_body]
  note q = stub_session_url_parses [of "replies 200 html_body"]
  have d:
    "Decode_readers ?e (bytes (Response.Body ?r)) zero_readersResponse
       = (zero_readersResponse, Some stub_syntax_error)"
    "Decode_startNewRPCSession ?e (bytes (Response.Body ?r)) zero_startNewRPCSessionResponse
       = (zero_startNewRPCSessionResponse, Some stub_syntax_error)"
    "Decode_getConnectionToken ?e (bytes (Response.Body ?r)) zero_getConnectionTokenResponse
       = (zero_getConnectionTokenResponse, Some stub_syntax_error)"
    "Decode_createPaymentIntent ?e (bytes (Response.Body ?r)) zero_createPaymentIntentResponse
       = (zero_createPaymentIntentResponse, Some stub_syntax_error)"
    "Decode_registerReader ?e (bytes (Response.Body ?r)) zero_registerReaderResponse
       = (zero_registerReaderResponse, Some stub_syntax_error)"
    by (simp_all add: stub_rejects_html)
  note c8 = C8_decode_error_discarded [OF stub_parses [of "replies 200 html_body"] ok,
      where s = stub_state and x = stub_syntax_error
        and ?u' = "ParsedURL ''https://api.stripe.com/v1/terminal/connection_tokens/activate''"
        and regcode = "''simulated-wpe''"
        and ?result1.0 = zero_readersResponse
        and ?result2.0 = zero_startNewRPCSessionResponse
        and ?result3.0 = zero_getConnectionTokenResponse
        and ?result4.0 = zero_createPaymentIntentResponse
        and ?result5.0 = zero_registerReaderResponse]
  have 1: "fst (DiscoverReaders ?e stub_state) = Return [] None"
    using c8 [THEN conjunct1] t d(1) by blast
  have 2: "fst (StartNewRPCSession ?e stub_state) = Return [] None"
    using c8 [THEN conjunct2, THEN conjunct1] q t d(2) by blast
  have 3: "fst (GetNewConnectionToken ?e stub_state) = Return [] None"
    using c8 [THEN conjunct2, THEN conjunct2, THEN conjunct1] t d(3) by blast
  have 4: "fst (CreatePaymentIntent ?e stub_state) = Return [] None"
    using c8 [THEN conjunct2, THEN conjunct2, THEN conjunct2, THEN conjunct1] t d(4) by blast
  have 5: "fst (RegisterReader ?e ''simulated-wpe'' stub_state) = Return [] None"
    using c8 [THEN conjunct2, THEN conjunct2, THEN conjunct2, THEN conjunct2] t d(5) by blast
  from 1 2 3 4 5 show ?thesis by (intro conjI)
qed

subsection \<open>The session context\<close>

text \<open>
  Claim C9. No operation changes a field of the session context it receives: after each of
  the six operations the context variable holds the value it held at the call, whatever the
  environment answers, so tokens, payment intent IDs and IP addresses leave an operation only
  as its returned value.
\<close>

theorem C9_context_unchanged:
  "tsCtx (snd (DiscoverReaders e s)) = tsCtx s \<and>
   tsCtx (snd (StartNewRPCSession e s)) = tsCtx s \<and>
   tsCtx (snd (GetNewConnectionToken e s)) = tsCtx s \<and>
   tsCtx (snd (CreatePaymentIntent e s)) = tsCtx s \<and>
   tsCtx (snd (CapturePaymentIntent e s)) = tsCtx s \<and>
   tsCtx (snd (RegisterReader e regcode s)) = tsCtx s"
proof -
  have "tsCtx (snd (DiscoverReaders e s)) = tsCtx s"
    by (simp add: DiscoverReaders_def step_defs split: sum.splits option.splits prod.splits)
  moreover have "tsCtx (snd (StartNewRPCSession e s)) = tsCtx s"
    by (simp add: StartNewRPCSession_unfold Let_def
          split: sum.splits prod.splits option.splits)
  moreover have "tsCtx (snd (GetNewConnectionToken e s)) = tsCtx s"
    by (simp add: GetNewConnectionToken_def step_defs split: sum.splits option.splits prod.splits)
  moreover have "tsCtx (snd (CreatePaymentIntent e s)) = tsCtx s"
    by (simp add: CreatePaymentIntent_def step_defs split: sum.splits option.splits prod.splits)
  moreover have "tsCtx (snd (CapturePaymentIntent e s)) = tsCtx s"
    by (simp add: CapturePaymentIntent_def step_defs split: sum.splits option.splits prod.splits)
  moreover have "tsCtx (snd (RegisterReader e regcode s)) = tsCtx s"
    by (simp add: RegisterReader_def step_defs split: sum.splits option.splits prod.splits)
  ultimately show ?thesis by simp
qed

subsection \<open>The second test of the parse error\<close>

text \<open>
  Lines 69 to 71 of the source test \<open>err\<close> a second time, after \<^verbatim>\<open>DiscoverReaders\<close> has
  already returned where \<open>err\<close> is not nil. The second test never fires: whatever
  \<^verbatim>\<open>url.Parse\<close> returns, the operation is equal to its body with that test deleted.
\<close>

lemma DiscoverReaders_second_test_dead:
  "DiscoverReaders e s = DiscoverReaders_single_check e s"
  by (simp add: DiscoverReaders_def DiscoverReaders_single_check_def Let_def split: prod.splits)

end
